theory Spec2Isabelle
  imports
    Complex_Main
    "HOL-Library.Multiset"
    "HOL-Library.Char_ord"
    "HOL-Library.List_Lexorder"
    "HOL-Library.Word"
begin

section \<open>Documents of the videos collection\<close>

text \<open>
  The fields of a video document that the search, recommendation and trending code of
  \<^verbatim>\<open>database-service.js\<close> reads. \<^verbatim>\<open>publishedAt\<close> is an ISO-8601 string (schema:
  \<^verbatim>\<open>bsonType: 'string'\<close>) and is compared as a string, byte by byte. \<^verbatim>\<open>popularity\<close> and
  \<^verbatim>\<open>recency\<close> are doubles in the store: a double is the real number it stands for, and the
  store's arithmetic on doubles is a parameter of the model (\<open>StoreArith\<close> below).
\<close>

record Creator =
  creator_id :: string
  creator_name :: string

record VideoRecord =
  youtubeId :: string
  title :: string
  creator :: Creator
  publishedAt :: string
  duration :: int
  viewCount :: int
  brawlers :: "string list"
  gameModes :: "string list"
  contentType :: "string list"
  skillLevel :: string
  popularity :: real
  recency :: real

text \<open>
  A collection is the list of its documents, in the order the store would return them
  without a sort. Connection failures (\<^verbatim>\<open>ensureConnection\<close>) are outside the model.
\<close>

type_synonym videos_collection = "VideoRecord list"

datatype error =
    VideoNotFound string
  | NegativeSkip int
  | LimitNotPositive int
  | LogOfNonPositive int

section \<open>Numbers\<close>

text \<open>
  The numbers the code computes with are JavaScript numbers, doubles; the model has the
  integers among them as \<open>int\<close>. On the safe integers (\<^verbatim>\<open>Number.isSafeInteger\<close>) the
  integer arithmetic of doubles is exact.
\<close>

definition safe_integer :: "int \<Rightarrow> bool" where
  "safe_integer n \<longleftrightarrow> \<bar>n\<bar> \<le> 2 ^ 53 - 1"

text \<open>
  \<^verbatim>\<open>parseInt\<close> of an integer number reads the number's decimal form. Below \<open>10\<^sup>2\<^sup>1\<close> that
  form is the digits of the integer, and \<^verbatim>\<open>parseInt\<close> reads the number back. From \<open>10\<^sup>2\<^sup>1\<close>
  on it is the exponent form of the shortest decimal that rounds to the double, as in
  \<^verbatim>\<open>1e+21\<close> or \<^verbatim>\<open>2.5e+21\<close>, of which \<^verbatim>\<open>parseInt\<close> reads the one digit before the point or
  the exponent. That digit is the first digit of the integer, unless the next number
  above it that is one digit and zeros rounds to the same double (to nearest, a tie to
  the even mantissa): the double \<open>99999999999999991611392\<close> has the form \<^verbatim>\<open>1e+23\<close>.
  The argument is meant to be a double.
\<close>

function leading_digit :: "nat \<Rightarrow> nat" where
  "leading_digit n = (if n < 10 then n else leading_digit (n div 10))"
  by pat_completeness auto
termination
  by (relation "measure id") auto

function decimal_exponent :: "nat \<Rightarrow> nat" where
  "decimal_exponent n = (if n < 10 then 0 else Suc (decimal_exponent (n div 10)))"
  by pat_completeness auto
termination
  by (relation "measure id") auto

function bit_length :: "nat \<Rightarrow> nat" where
  "bit_length n = (if n = 0 then 0 else Suc (bit_length (n div 2)))"
  by pat_completeness auto
termination
  by (relation "measure id") auto

declare leading_digit.simps [simp del]
declare decimal_exponent.simps [simp del]
declare bit_length.simps [simp del]

definition exponent_digit :: "nat \<Rightarrow> nat" where
  "exponent_digit n =
     (let d = leading_digit n;
          above = (d + 1) * 10 ^ decimal_exponent n;
          ulp = 2 ^ (bit_length n - 53)
      in if 2 * (above - n) < ulp \<or> (2 * (above - n) = ulp \<and> even (n div ulp))
         then (if d = 9 then 1 else d + 1)
         else d)"

definition parseInt :: "int \<Rightarrow> int" where
  "parseInt n = (if \<bar>n\<bar> < 10 ^ 21 then n else sgn n * int (exponent_digit (nat \<bar>n\<bar>)))"

text \<open>
  The store's arithmetic on doubles: \<^verbatim>\<open>$add\<close> and \<^verbatim>\<open>$multiply\<close> of a list of operands and
  \<^verbatim>\<open>$log10\<close>, each returning the double the store computes, rounding included. Integer
  operands are the reals they denote.
\<close>

record StoreArith =
  d_add :: "real list \<Rightarrow> real"
  d_multiply :: "real list \<Rightarrow> real"
  d_log10 :: "real \<Rightarrow> real"

section \<open>Stages shared by the queries\<close>

text \<open>
  \<^verbatim>\<open>$sort\<close>: insertion sort by a relation \<open>prior\<close> (\<open>prior a b\<close>: \<open>a\<close> may stand
  in front of \<open>b\<close>). The store promises no order among documents that compare equal;
  the model keeps their input order.
\<close>

fun insert_by :: "('a \<Rightarrow> 'a \<Rightarrow> bool) \<Rightarrow> 'a \<Rightarrow> 'a list \<Rightarrow> 'a list" where
  "insert_by prior x [] = [x]"
| "insert_by prior x (y # ys) =
     (if prior x y then x # y # ys else y # insert_by prior x ys)"

fun sort_by :: "('a \<Rightarrow> 'a \<Rightarrow> bool) \<Rightarrow> 'a list \<Rightarrow> 'a list" where
  "sort_by prior [] = []"
| "sort_by prior (x # xs) = insert_by prior x (sort_by prior xs)"

text \<open>
  The aggregation stage \<^verbatim>\<open>{ $limit: n }\<close>: the store rejects a pipeline whose limit is not
  positive, otherwise it keeps the first \<open>n\<close> documents.
\<close>

definition limit_stage :: "int \<Rightarrow> 'a list \<Rightarrow> error + 'a list" where
  "limit_stage n xs = (if n \<le> 0 then Inl (LimitNotPositive n) else Inr (take (nat n) xs))"

text \<open>\<^verbatim>\<open>$skip\<close> of an aggregation: a negative argument is rejected.\<close>

definition skip_stage :: "int \<Rightarrow> 'a list \<Rightarrow> error + 'a list" where
  "skip_stage n xs = (if n < 0 then Inl (NegativeSkip n) else Inr (drop (nat n) xs))"

text \<open>\<^verbatim>\<open>$setIntersection\<close> treats both arrays as sets: the result has no duplicates.\<close>

definition setIntersection :: "'a list \<Rightarrow> 'a list \<Rightarrow> 'a list" where
  "setIntersection xs ys = remdups (filter (\<lambda>x. x \<in> set ys) xs)"

section \<open>getVideoRecommendations\<close>

definition getVideoByYoutubeId :: "videos_collection \<Rightarrow> string \<Rightarrow> VideoRecord option" where
  "getVideoByYoutubeId store yid = find (\<lambda>v. youtubeId v = yid) store"

record UserPreferences =
  preferredBrawlers :: "string list option"

record RankedResult =
  video :: VideoRecord
  similarityScore :: int
  preferenceBoost :: "int option"
  finalScore :: real

text \<open>The first \<^verbatim>\<open>$addFields\<close> stage: 3, 2 and 1 points per shared brawler, game mode and
  content type, 4 points for the same creator. All operands are integers.\<close>

definition baseSimilarity :: "VideoRecord \<Rightarrow> VideoRecord \<Rightarrow> int" where
  "baseSimilarity sourceVideo c =
     int (length (setIntersection (brawlers c) (brawlers sourceVideo))) * 3
   + int (length (setIntersection (gameModes c) (gameModes sourceVideo))) * 2
   + int (length (setIntersection (contentType c) (contentType sourceVideo))) * 1
   + (if creator_id (creator c) = creator_id (creator sourceVideo) then 4 else 0)"

text \<open>
  The guard \<^verbatim>\<open>userPreferences && userPreferences.preferredBrawlers &&
  userPreferences.preferredBrawlers.length > 0\<close>; \<open>None\<close> for the argument stands for a
  null or absent \<^verbatim>\<open>userPreferences\<close> (an absent one defaults to \<^verbatim>\<open>{}\<close>, which has no
  \<^verbatim>\<open>preferredBrawlers\<close> either).
\<close>

definition boostBrawlers :: "UserPreferences option \<Rightarrow> string list option" where
  "boostBrawlers userPreferences =
     (case userPreferences of
        None \<Rightarrow> None
      | Some up \<Rightarrow>
          (case preferredBrawlers up of
             None \<Rightarrow> None
           | Some pb \<Rightarrow> if length pb > 0 then Some pb else None))"

text \<open>
  The stages that add \<^verbatim>\<open>similarityScore\<close>, \<^verbatim>\<open>preferenceBoost\<close> and \<^verbatim>\<open>finalScore\<close>. The final
  score is the store's \<^verbatim>\<open>$add\<close> of the similarity score and the two \<^verbatim>\<open>$multiply\<close> products.
\<close>

definition scoreCandidate ::
  "StoreArith \<Rightarrow> VideoRecord \<Rightarrow> UserPreferences option \<Rightarrow> VideoRecord \<Rightarrow> RankedResult" where
  "scoreCandidate ar sourceVideo userPreferences c =
     (let sim = baseSimilarity sourceVideo c;
          boost = (case boostBrawlers userPreferences of
                     None \<Rightarrow> None
                   | Some pb \<Rightarrow> Some (int (length (setIntersection (brawlers c) pb)) * 1));
          sim' = (case boost of None \<Rightarrow> sim | Some b \<Rightarrow> sim + b)
      in \<lparr> video = c,
           similarityScore = sim',
           preferenceBoost = boost,
           finalScore =
             d_add ar [real_of_int sim', d_multiply ar [popularity c, 5],
                       d_multiply ar [recency c, 3]] \<rparr>)"

text \<open>\<^verbatim>\<open>{ $sort: { finalScore: -1, publishedAt: -1 } }\<close>\<close>

definition rank_before :: "RankedResult \<Rightarrow> RankedResult \<Rightarrow> bool" where
  "rank_before a b \<longleftrightarrow>
     finalScore a > finalScore b
   \<or> (finalScore a = finalScore b \<and> publishedAt (video a) \<ge> publishedAt (video b))"

text \<open>
  \<open>limit = None\<close> is a call without the argument, which takes the default 6. The source
  video is looked up first; the pipeline runs over every other document and ends in
  \<^verbatim>\<open>{ $limit: parseInt(limit) }\<close>.
\<close>

definition getVideoRecommendations ::
  "StoreArith \<Rightarrow> videos_collection \<Rightarrow> string \<Rightarrow> int option \<Rightarrow> UserPreferences option
     \<Rightarrow> error + RankedResult list" where
  "getVideoRecommendations ar store yid limit userPreferences =
     (case getVideoByYoutubeId store yid of
        None \<Rightarrow> Inl (VideoNotFound yid)
      | Some sourceVideo \<Rightarrow>
          limit_stage (parseInt (case limit of None \<Rightarrow> 6 | Some n \<Rightarrow> n))
            (sort_by rank_before
               (map (scoreCandidate ar sourceVideo userPreferences)
                  (filter (\<lambda>v. youtubeId v \<noteq> yid) store))))"

section \<open>searchVideos\<close>

text \<open>
  The parameter object of \<^verbatim>\<open>searchVideos\<close>. The fields carry the prefix \<open>p_\<close> because the
  documents use the names \<^verbatim>\<open>brawlers\<close>, \<^verbatim>\<open>gameModes\<close>, \<^verbatim>\<open>contentType\<close> and \<^verbatim>\<open>skillLevel\<close>
  too. An absent string or array parameter takes the default \<^verbatim>\<open>''\<close> or \<^verbatim>\<open>[]\<close>, an absent
  number 0, so absence is that value here; \<^verbatim>\<open>sortBy\<close>, \<^verbatim>\<open>limit\<close> and \<^verbatim>\<open>page\<close> have other
  defaults (\<^verbatim>\<open>'relevance'\<close>, 20, 1) and are optional. The numbers are integers.

  The query is the one string the code looks into (\<^verbatim>\<open>trim\<close>): it is a JavaScript string,
  a list of UTF-16 code units.
\<close>

type_synonym utf16 = "16 word list"

record SearchParams =
  p_query :: utf16
  p_brawlers :: "string list"
  p_gameModes :: "string list"
  p_contentType :: "string list"
  p_skillLevel :: string
  p_sortBy :: "string option"
  p_limit :: "int option"
  p_page :: "int option"
  p_minViews :: int
  p_maxDuration :: int
  p_dateFrom :: string
  p_dateTo :: string
  p_channelId :: string

text \<open>
  \<^verbatim>\<open>String.prototype.trim\<close> strips the white space and the line terminators of ECMAScript:
  tab, line feed, vertical tab, form feed, carriage return, space, no-break space, the
  other space separators of Unicode, the line and paragraph separators and the byte
  order mark.
\<close>

definition is_space :: "16 word \<Rightarrow> bool" where
  "is_space c \<longleftrightarrow>
     c \<in> set [0x0009, 0x000A, 0x000B, 0x000C, 0x000D, 0x0020, 0x00A0, 0x1680,
              0x2000, 0x2001, 0x2002, 0x2003, 0x2004, 0x2005, 0x2006, 0x2007, 0x2008,
              0x2009, 0x200A, 0x2028, 0x2029, 0x202F, 0x205F, 0x3000, 0xFEFF]"

definition trim :: "utf16 \<Rightarrow> utf16" where
  "trim s = rev (dropWhile is_space (rev (dropWhile is_space s)))"

text \<open>The test \<^verbatim>\<open>query && query.trim() !== ''\<close>.\<close>

definition has_text :: "utf16 \<Rightarrow> bool" where
  "has_text query \<longleftrightarrow> query \<noteq> [] \<and> trim query \<noteq> []"

text \<open>
  The filter document \<^verbatim>\<open>dbQuery\<close>: one optional constraint per key the code may set.
  \<open>q_text\<close> is \<^verbatim>\<open>$text: { $search }\<close>, the three array constraints are \<^verbatim>\<open>$in\<close>,
  \<open>q_viewCount\<close> is \<^verbatim>\<open>$gte\<close>, \<open>q_duration\<close> is \<^verbatim>\<open>$lte\<close>, and \<open>q_publishedAt\<close> holds
  the optional \<^verbatim>\<open>$gte\<close> and \<^verbatim>\<open>$lte\<close> bounds.
\<close>

record DateRange =
  range_gte :: "string option"
  range_lte :: "string option"

record DbQuery =
  q_text :: "utf16 option"
  q_brawlers :: "string list option"
  q_gameModes :: "string list option"
  q_contentType :: "string list option"
  q_skillLevel :: "string option"
  q_creator_id :: "string option"
  q_viewCount :: "int option"
  q_duration :: "int option"
  q_publishedAt :: "DateRange option"

definition dbQuery :: "SearchParams \<Rightarrow> DbQuery" where
  "dbQuery params =
     \<lparr> q_text = (if has_text (p_query params) then Some (p_query params) else None),
       q_brawlers = (if length (p_brawlers params) > 0 then Some (p_brawlers params) else None),
       q_gameModes = (if length (p_gameModes params) > 0 then Some (p_gameModes params) else None),
       q_contentType =
         (if length (p_contentType params) > 0 then Some (p_contentType params) else None),
       q_skillLevel = (if p_skillLevel params \<noteq> [] then Some (p_skillLevel params) else None),
       q_creator_id = (if p_channelId params \<noteq> [] then Some (p_channelId params) else None),
       q_viewCount =
         (if p_minViews params > 0 then Some (parseInt (p_minViews params)) else None),
       q_duration =
         (if p_maxDuration params > 0 then Some (parseInt (p_maxDuration params)) else None),
       q_publishedAt =
         (if p_dateFrom params \<noteq> [] \<or> p_dateTo params \<noteq> []
          then Some \<lparr> range_gte = (if p_dateFrom params \<noteq> [] then Some (p_dateFrom params) else None),
                      range_lte = (if p_dateTo params \<noteq> [] then Some (p_dateTo params) else None) \<rparr>
          else None) \<rparr>"

text \<open>
  The sort document \<^verbatim>\<open>sortOptions\<close>, keys in their order: \<open>TextScoreMeta\<close> is
  \<^verbatim>\<open>score: { $meta: 'textScore' }\<close>, \<open>Field f d\<close> is the key \<open>f\<close> with direction \<open>d\<close>.
\<close>

datatype sort_field = Popularity | PublishedAt | ViewCount | Recency

datatype sort_entry = TextScoreMeta | Field sort_field int

definition sortOptions :: "string \<Rightarrow> utf16 \<Rightarrow> sort_entry list" where
  "sortOptions sortBy query =
     (if sortBy = ''relevance'' then
        (if has_text query then [TextScoreMeta] else [Field Popularity (- 1)])
      else if sortBy = ''recent'' then [Field PublishedAt (- 1)]
      else if sortBy = ''popular'' then [Field ViewCount (- 1)]
      else if sortBy = ''trending'' then [Field Recency (- 1), Field Popularity (- 1)]
      else [Field Popularity (- 1)])"

subsection \<open>What the store does with the two documents\<close>

text \<open>
  Full-text search belongs to the store's text index: which documents a search string
  matches and with what score are parameters of the model.
\<close>

record TextSearch =
  textMatches :: "utf16 \<Rightarrow> VideoRecord \<Rightarrow> bool"
  textScore :: "utf16 \<Rightarrow> VideoRecord \<Rightarrow> real"

text \<open>\<^verbatim>\<open>{ field: { $in: values } }\<close> on an array field: some element of the field is in
  \<open>values\<close>. An absent constraint holds.\<close>

definition in_match :: "string list option \<Rightarrow> string list \<Rightarrow> bool" where
  "in_match c field =
     (case c of None \<Rightarrow> True | Some values \<Rightarrow> list_ex (\<lambda>x. x \<in> set values) field)"

definition eq_match :: "string option \<Rightarrow> string \<Rightarrow> bool" where
  "eq_match c field = (case c of None \<Rightarrow> True | Some s \<Rightarrow> field = s)"

definition range_match :: "DateRange option \<Rightarrow> string \<Rightarrow> bool" where
  "range_match c field =
     (case c of
        None \<Rightarrow> True
      | Some r \<Rightarrow>
          (case range_gte r of None \<Rightarrow> True | Some lo \<Rightarrow> lo \<le> field)
        \<and> (case range_lte r of None \<Rightarrow> True | Some hi \<Rightarrow> field \<le> hi))"

definition matches :: "TextSearch \<Rightarrow> DbQuery \<Rightarrow> VideoRecord \<Rightarrow> bool" where
  "matches ts q v \<longleftrightarrow>
     (case q_text q of None \<Rightarrow> True | Some s \<Rightarrow> textMatches ts s v)
   \<and> in_match (q_brawlers q) (brawlers v)
   \<and> in_match (q_gameModes q) (gameModes v)
   \<and> in_match (q_contentType q) (contentType v)
   \<and> eq_match (q_skillLevel q) (skillLevel v)
   \<and> eq_match (q_creator_id q) (creator_id (creator v))
   \<and> (case q_viewCount q of None \<Rightarrow> True | Some n \<Rightarrow> n \<le> viewCount v)
   \<and> (case q_duration q of None \<Rightarrow> True | Some n \<Rightarrow> duration v \<le> n)
   \<and> range_match (q_publishedAt q) (publishedAt v)"

text \<open>
  How two documents stand under one sort key: a negative direction puts the larger value
  first, and the text score always sorts from the highest down.
\<close>

datatype placing = Ahead | Level | Behind

definition place :: "'k::linorder \<Rightarrow> 'k \<Rightarrow> placing" where
  "place x y = (if x < y then Ahead else if x = y then Level else Behind)"

definition directed :: "int \<Rightarrow> 'k::linorder \<Rightarrow> 'k \<Rightarrow> placing" where
  "directed d x y = (if d < 0 then place y x else place x y)"

fun entry_place :: "TextSearch \<Rightarrow> utf16 \<Rightarrow> sort_entry \<Rightarrow> VideoRecord \<Rightarrow> VideoRecord \<Rightarrow> placing" where
  "entry_place ts query TextScoreMeta a b =
     directed (- 1) (textScore ts query a) (textScore ts query b)"
| "entry_place ts query (Field Popularity d) a b = directed d (popularity a) (popularity b)"
| "entry_place ts query (Field PublishedAt d) a b = directed d (publishedAt a) (publishedAt b)"
| "entry_place ts query (Field ViewCount d) a b = directed d (viewCount a) (viewCount b)"
| "entry_place ts query (Field Recency d) a b = directed d (recency a) (recency b)"

fun sorts_before :: "TextSearch \<Rightarrow> utf16 \<Rightarrow> sort_entry list \<Rightarrow> VideoRecord \<Rightarrow> VideoRecord \<Rightarrow> bool" where
  "sorts_before ts query [] a b = True"
| "sorts_before ts query (e # es) a b =
     (case entry_place ts query e a b of
        Ahead \<Rightarrow> True
      | Behind \<Rightarrow> False
      | Level \<Rightarrow> sorts_before ts query es a b)"

text \<open>
  \<^verbatim>\<open>cursor.skip(skip).limit(limit)\<close> of a \<^verbatim>\<open>find\<close>: the store rejects a negative skip; a
  limit of 0 is no limit, and a negative limit asks for at most its absolute value.
\<close>

definition cursor_skip_limit :: "int \<Rightarrow> int \<Rightarrow> 'a list \<Rightarrow> error + 'a list" where
  "cursor_skip_limit skip lmt xs =
     (if skip < 0 then Inl (NegativeSkip skip)
      else if lmt = 0 then Inr (drop (nat skip) xs)
      else Inr (take (nat \<bar>lmt\<bar>) (drop (nat skip) xs)))"

text \<open>
  \<^verbatim>\<open>Math.ceil(total / limit)\<close> on integers: the quotient of a division by zero is
  \<^verbatim>\<open>Infinity\<close>, \<^verbatim>\<open>-Infinity\<close> or \<^verbatim>\<open>NaN\<close>, which \<^verbatim>\<open>Math.ceil\<close> returns unchanged.
\<close>

datatype jsnum = Num int | PosInfinity | NegInfinity | NaN

definition ceil_quotient :: "int \<Rightarrow> int \<Rightarrow> jsnum" where
  "ceil_quotient totalDocs lmt =
     (if lmt = 0 then (if totalDocs = 0 then NaN else if totalDocs > 0 then PosInfinity else NegInfinity)
      else Num (- ((- totalDocs) div lmt)))"

record Pagination =
  pg_total :: int
  pg_page :: int
  pg_limit :: int
  pg_pages :: jsnum

record SearchResult =
  videos :: "VideoRecord list"
  pagination :: Pagination

text \<open>\<open>limit\<close> and \<open>page\<close> below are the code's \<^verbatim>\<open>parseInt(limit)\<close> and \<^verbatim>\<open>parseInt(page)\<close>, the
  only form in which it uses the two parameters.\<close>

definition searchVideos :: "TextSearch \<Rightarrow> videos_collection \<Rightarrow> SearchParams \<Rightarrow> error + SearchResult" where
  "searchVideos ts store params =
     (let query = p_query params;
          sortBy = (case p_sortBy params of None \<Rightarrow> ''relevance'' | Some s \<Rightarrow> s);
          limit = parseInt (case p_limit params of None \<Rightarrow> 20 | Some n \<Rightarrow> n);
          page = parseInt (case p_page params of None \<Rightarrow> 1 | Some n \<Rightarrow> n);
          skip = (page - 1) * limit;
          matched = filter (matches ts (dbQuery params)) store;
          sorted = sort_by (sorts_before ts query (sortOptions sortBy query)) matched;
          totalDocs = int (length matched)
      in case cursor_skip_limit skip limit sorted of
           Inl e \<Rightarrow> Inl e
         | Inr vs \<Rightarrow>
             Inr \<lparr> videos = vs,
                   pagination = \<lparr> pg_total = totalDocs, pg_page = page, pg_limit = limit,
                                  pg_pages = ceil_quotient totalDocs limit \<rparr> \<rparr>)"

section \<open>Trending aggregation\<close>

text \<open>
  Both functions read the clock: \<open>windowStart days\<close> is the ISO string of the moment
  \<open>days\<close> days before now (\<^verbatim>\<open>startDate.toISOString()\<close>), a parameter of the model.
\<close>

subsection \<open>getPopularSearchQueries\<close>

record SearchHistoryRow =
  sh_query :: string
  sh_timestamp :: string

record QueryCount =
  qc_query :: string
  qc_count :: int

record PopularQueries =
  queries :: "QueryCount list"
  queries_pagination :: Pagination

text \<open>\<^verbatim>\<open>{ $group: { _id: "$query", count: { $sum: 1 } } }\<close>: one entry per distinct query.\<close>

definition group_queries :: "string list \<Rightarrow> QueryCount list" where
  "group_queries qs =
     map (\<lambda>k. \<lparr> qc_query = k, qc_count = int (length (filter (\<lambda>x. x = k) qs)) \<rparr>) (remdups qs)"

definition count_before :: "QueryCount \<Rightarrow> QueryCount \<Rightarrow> bool" where
  "count_before a b \<longleftrightarrow> qc_count a \<ge> qc_count b"

definition getPopularSearchQueries ::
  "(int \<Rightarrow> string) \<Rightarrow> SearchHistoryRow list \<Rightarrow> int option \<Rightarrow> int option \<Rightarrow> int option
     \<Rightarrow> error + PopularQueries" where
  "getPopularSearchQueries windowStart history limit days page =
     (let lmt = parseInt (case limit of None \<Rightarrow> 10 | Some n \<Rightarrow> n);
          d = (case days of None \<Rightarrow> 30 | Some n \<Rightarrow> n);
          pg = parseInt (case page of None \<Rightarrow> 1 | Some n \<Rightarrow> n);
          skip = (pg - 1) * lmt;
          window = filter (\<lambda>r. sh_timestamp r \<ge> windowStart d) history;
          sorted = sort_by count_before (group_queries (map sh_query window));
          totalDocs = int (length sorted)
      in case skip_stage skip sorted of
           Inl e \<Rightarrow> Inl e
         | Inr rest \<Rightarrow>
             (case limit_stage lmt rest of
                Inl e \<Rightarrow> Inl e
              | Inr data \<Rightarrow>
                  Inr \<lparr> queries = data,
                        queries_pagination =
                          \<lparr> pg_total = totalDocs, pg_page = pg, pg_limit = lmt,
                            pg_pages = ceil_quotient totalDocs lmt \<rparr> \<rparr>))"

subsection \<open>getTrendingBrawlers\<close>

record TrendingEntry =
  t_brawler :: string
  t_count :: int
  t_totalViews :: int
  t_score :: real

text \<open>\<^verbatim>\<open>$unwind: "$brawlers"\<close>: one row per element of the array, with the video's views.\<close>

definition unwind_brawlers :: "VideoRecord list \<Rightarrow> (string \<times> int) list" where
  "unwind_brawlers vs = concat (map (\<lambda>v. map (\<lambda>b. (b, viewCount v)) (brawlers v)) vs)"

text \<open>
  The \<^verbatim>\<open>$addFields\<close> score: \<^verbatim>\<open>count * 1\<close> and \<^verbatim>\<open>totalViews + 1\<close> are integer operations; the
  logarithm, its product with 2 and the final sum are the store's operations on doubles.
\<close>

definition trendingScore :: "StoreArith \<Rightarrow> int \<Rightarrow> int \<Rightarrow> real" where
  "trendingScore ar cnt views =
     d_add ar [real_of_int (cnt * 1), d_multiply ar [d_log10 ar (real_of_int (views + 1)), 2]]"

definition group_brawlers :: "StoreArith \<Rightarrow> (string \<times> int) list \<Rightarrow> TrendingEntry list" where
  "group_brawlers ar rows =
     map (\<lambda>k. let mine = filter (\<lambda>r. fst r = k) rows;
                  cnt = int (length mine);
                  views = sum_list (map snd mine)
              in \<lparr> t_brawler = k, t_count = cnt, t_totalViews = views,
                   t_score = trendingScore ar cnt views \<rparr>)
       (remdups (map fst rows))"

definition score_before :: "TrendingEntry \<Rightarrow> TrendingEntry \<Rightarrow> bool" where
  "score_before a b \<longleftrightarrow> t_score a \<ge> t_score b"

text \<open>\<^verbatim>\<open>$log10\<close> rejects an argument that is not positive, and the aggregation fails.\<close>

definition getTrendingBrawlers ::
  "StoreArith \<Rightarrow> (int \<Rightarrow> string) \<Rightarrow> videos_collection \<Rightarrow> int option \<Rightarrow> int option
     \<Rightarrow> error + TrendingEntry list" where
  "getTrendingBrawlers ar windowStart store limit days =
     (let lmt = parseInt (case limit of None \<Rightarrow> 10 | Some n \<Rightarrow> n);
          d = (case days of None \<Rightarrow> 30 | Some n \<Rightarrow> n);
          window = filter (\<lambda>v. publishedAt v \<ge> windowStart d) store;
          groups = group_brawlers ar (unwind_brawlers window)
      in if lmt \<le> 0 then Inl (LimitNotPositive lmt)
         else case find (\<lambda>g. t_totalViews g + 1 \<le> 0) groups of
                Some g \<Rightarrow> Inl (LogOfNonPositive (t_totalViews g + 1))
              | None \<Rightarrow> limit_stage lmt (sort_by score_before groups))"

section \<open>Notions of the specification\<close>

text \<open>The arithmetic of the real numbers, which the store's arithmetic on doubles agrees
  with wherever no rounding occurs.\<close>

definition exact_arith :: StoreArith where
  "exact_arith = \<lparr> d_add = sum_list, d_multiply = prod_list, d_log10 = log 10 \<rparr>"

text \<open>The preferred brawlers a caller supplied: none when the preferences, or the
  \<^verbatim>\<open>preferredBrawlers\<close> in them, are absent.\<close>

definition preferredList :: "UserPreferences option \<Rightarrow> string list" where
  "preferredList userPreferences =
     (case userPreferences of
        None \<Rightarrow> []
      | Some up \<Rightarrow> (case preferredBrawlers up of None \<Rightarrow> [] | Some pb \<Rightarrow> pb))"

text \<open>
  A search request whose numbers are safe integers: the minimum views, the maximum
  duration, the page and the page size (1 and 20 when absent), and the offset
  \<open>(page - 1) * pageSize\<close> computed from them.
\<close>

definition safe_numbers :: "SearchParams \<Rightarrow> bool" where
  "safe_numbers params \<longleftrightarrow>
     safe_integer (p_minViews params) \<and> safe_integer (p_maxDuration params)
   \<and> safe_integer (case p_page params of None \<Rightarrow> 1 | Some n \<Rightarrow> n)
   \<and> safe_integer (case p_limit params of None \<Rightarrow> 20 | Some n \<Rightarrow> n)
   \<and> safe_integer (((case p_page params of None \<Rightarrow> 1 | Some n \<Rightarrow> n) - 1)
                     * (case p_limit params of None \<Rightarrow> 20 | Some n \<Rightarrow> n))"

text \<open>
  The specification's \<open>count(e)\<close> and \<open>totalViews(e)\<close> of a brawler \<open>e\<close> over the
  videos of the window: the number of occurrences of \<open>e\<close> in their brawler arrays, and
  the views of the videos summed over these occurrences.
\<close>

definition spec_count :: "string \<Rightarrow> VideoRecord list \<Rightarrow> int" where
  "spec_count e window = (\<Sum>v\<leftarrow>window. int (count_list (brawlers v) e))"

definition spec_totalViews :: "string \<Rightarrow> VideoRecord list \<Rightarrow> int" where
  "spec_totalViews e window = (\<Sum>v\<leftarrow>window. int (count_list (brawlers v) e) * viewCount v)"

section \<open>Example data\<close>

text \<open>
  A source video about Mortis in Brawl Ball, a second video equal to it in everything but
  the id, and two unrelated videos, in a store of four.
\<close>

definition mortis_source :: VideoRecord where
  "mortis_source =
     \<lparr> youtubeId = ''src'', title = ''Mortis guide'',
       creator = \<lparr> creator_id = ''ch1'', creator_name = ''One'' \<rparr>,
       publishedAt = ''2024-01-01T00:00:00.000Z'', duration = 600, viewCount = 1000,
       brawlers = [''Mortis''], gameModes = [''Brawl Ball''], contentType = [''tutorial''],
       skillLevel = ''beginner'', popularity = 1/2, recency = 1/4 \<rparr>"

definition mortis_twin :: VideoRecord where
  "mortis_twin = mortis_source \<lparr> youtubeId := ''twin'' \<rparr>"

definition colt_video :: VideoRecord where
  "colt_video =
     \<lparr> youtubeId = ''colt'', title = ''Colt in Brawl Ball'',
       creator = \<lparr> creator_id = ''ch2'', creator_name = ''Two'' \<rparr>,
       publishedAt = ''2024-02-01T00:00:00.000Z'', duration = 300, viewCount = 200000,
       brawlers = [''Colt''], gameModes = [''Brawl Ball''], contentType = [''gameplay''],
       skillLevel = [], popularity = 1, recency = 1 \<rparr>"

definition shelly_video :: VideoRecord where
  "shelly_video =
     \<lparr> youtubeId = ''shelly'', title = ''Shelly basics'',
       creator = \<lparr> creator_id = ''ch3'', creator_name = ''Three'' \<rparr>,
       publishedAt = ''2024-03-01T00:00:00.000Z'', duration = 900, viewCount = 900000,
       brawlers = [''Shelly''], gameModes = [''Gem Grab''], contentType = [''guide''],
       skillLevel = ''advanced'', popularity = 1/5, recency = 0 \<rparr>"

definition example_store :: videos_collection where
  "example_store = [shelly_video, mortis_source, colt_video, mortis_twin]"

text \<open>The two best recommendations for the source video in that store. Their scores
  (5/2 + 3/4 and 5 + 3 on top of the similarity) are sums that doubles hold exactly.\<close>

definition twin_ranked :: RankedResult where
  "twin_ranked =
     \<lparr> video = mortis_twin, similarityScore = 10, preferenceBoost = None, finalScore = 53 / 4 \<rparr>"

definition colt_ranked :: RankedResult where
  "colt_ranked =
     \<lparr> video = colt_video, similarityScore = 2, preferenceBoost = None, finalScore = 10 \<rparr>"

text \<open>
  Search requests: one without any filter, with every optional parameter absent; the same
  with a page and a page size; the same with a \<open>sortBy\<close>. The text index of the examples
  matches a search string against the title only.
\<close>

definition no_filter :: SearchParams where
  "no_filter =
     \<lparr> p_query = [], p_brawlers = [], p_gameModes = [], p_contentType = [], p_skillLevel = [],
       p_sortBy = None, p_limit = None, p_page = None, p_minViews = 0, p_maxDuration = 0,
       p_dateFrom = [], p_dateTo = [], p_channelId = [] \<rparr>"

definition page_request :: "int \<Rightarrow> int \<Rightarrow> SearchParams" where
  "page_request page pageSize = no_filter \<lparr> p_limit := Some pageSize, p_page := Some page \<rparr>"


definition title_index :: TextSearch where
  "title_index =
     \<lparr> textMatches = (\<lambda>s v. s = map of_char (title v)),
       textScore = (\<lambda>s v. if s = map of_char (title v) then 1 else 0) \<rparr>"

text \<open>A store of \<open>n\<close> videos with the ids \<open>v\<close>, \<open>vv\<close>, \<open>vvv\<close> and so on, and with the
  popularity scores \<open>0\<close>, \<open>1\<close>, \<open>2\<close> and so on.\<close>

definition numbered_store :: "nat \<Rightarrow> videos_collection" where
  "numbered_store n =
     map (\<lambda>i. colt_video \<lparr> youtubeId := replicate (Suc i) CHR ''v'', popularity := real i \<rparr>)
       [0..<n]"

text \<open>The ids of the videos a search returned, in their order.\<close>

definition listing :: "error + SearchResult \<Rightarrow> error + string list" where
  "listing res = map_sum id (\<lambda>r. map youtubeId (videos r)) res"

text \<open>
  Trending: a clock whose window starts in the middle of January 2024, three videos of
  which the first two are in the window, and four rows of search history of which the
  first three are.
\<close>

definition mid_january :: "int \<Rightarrow> string" where
  "mid_january days = ''2024-01-15T00:00:00.000Z''"

definition trend_store :: videos_collection where
  "trend_store =
     [colt_video \<lparr> youtubeId := ''t1'', brawlers := [''Mortis'', ''Colt''], viewCount := 9 \<rparr>,
      shelly_video \<lparr> youtubeId := ''t2'', brawlers := [''Mortis''], viewCount := 90 \<rparr>,
      mortis_source \<lparr> youtubeId := ''t3'', brawlers := [''Shelly''], viewCount := 999 \<rparr>]"

definition trend_history :: "SearchHistoryRow list" where
  "trend_history =
     [\<lparr> sh_query = ''mortis tips'', sh_timestamp = ''2024-02-01T00:00:00.000Z'' \<rparr>,
      \<lparr> sh_query = ''colt'', sh_timestamp = ''2024-02-02T00:00:00.000Z'' \<rparr>,
      \<lparr> sh_query = ''mortis tips'', sh_timestamp = ''2024-03-01T00:00:00.000Z'' \<rparr>,
      \<lparr> sh_query = ''old'', sh_timestamp = ''2024-01-01T00:00:00.000Z'' \<rparr>]"

definition entry_summary :: "TrendingEntry \<Rightarrow> string \<times> int \<times> int \<times> real" where
  "entry_summary e = (t_brawler e, t_count e, t_totalViews e, t_score e)"

definition query_summary :: "QueryCount \<Rightarrow> string \<times> int" where
  "query_summary e = (qc_query e, qc_count e)"

section \<open>Facts about numbers and the shared stages\<close>

lemmas example_defs =
  example_store_def mortis_source_def mortis_twin_def colt_video_def shelly_video_def

lemma parseInt_safe: "safe_integer n \<Longrightarrow> parseInt n = n"
  by (simp add: parseInt_def safe_integer_def)

lemma leading_digit_pos: "0 < n \<Longrightarrow> 0 < leading_digit n"
proof (induction n rule: leading_digit.induct)
  case (1 n)
  show ?case
  proof (cases "n < 10")
    case True
    with 1 show ?thesis by (subst leading_digit.simps) simp
  next
    case False
    then have "0 < n div 10" by simp
    with False 1 show ?thesis by (subst leading_digit.simps) simp
  qed
qed

lemma exponent_digit_pos: "0 < n \<Longrightarrow> 0 < exponent_digit n"
  by (simp add: exponent_digit_def Let_def leading_digit_pos)

lemma parseInt_pos: "0 < n \<Longrightarrow> 0 < parseInt n"
  by (simp add: parseInt_def exponent_digit_pos)

lemma parseInt_exponent_form:
  "parseInt (10 ^ 21) = 1"
  "parseInt (- (25 * 10 ^ 20)) = - 2"
  "parseInt 99999999999999991611392 = 1"
  by (simp_all add: parseInt_def exponent_digit_def Let_def leading_digit.simps
      decimal_exponent.simps bit_length.simps)

lemma exact_arith_simps:
  "d_add exact_arith xs = sum_list xs"
  "d_multiply exact_arith xs = prod_list xs"
  "d_log10 exact_arith x = log 10 x"
  by (simp_all add: exact_arith_def)

lemma length_setIntersection:
  "length (setIntersection xs ys) = card (set xs \<inter> set ys)"
proof -
  have "set (filter (\<lambda>x. x \<in> set ys) xs) = set xs \<inter> set ys"
    by auto
  then show ?thesis
    by (simp add: setIntersection_def length_remdups_card_conv)
qed

lemma mset_insert_by: "mset (insert_by prior x xs) = add_mset x (mset xs)"
  by (induction xs) simp_all

lemma mset_sort_by: "mset (sort_by prior xs) = mset xs"
  by (induction xs) (simp_all add: mset_insert_by)

lemma set_insert_by: "set (insert_by prior x xs) = insert x (set xs)"
  by (induction xs) auto

lemma set_sort_by: "set (sort_by prior xs) = set xs"
  by (induction xs) (simp_all add: set_insert_by)

lemma length_sort_by: "length (sort_by prior xs) = length xs"
  using mset_sort_by [of prior xs] by (metis size_mset)

lemma sorted_insert_by:
  assumes total: "\<And>a b. \<not> prior a b \<Longrightarrow> prior b a"
    and trans: "\<And>a b c. prior a b \<Longrightarrow> prior b c \<Longrightarrow> prior a c"
    and sorted: "sorted_wrt prior xs"
  shows "sorted_wrt prior (insert_by prior x xs)"
  using sorted
proof (induction xs)
  case Nil
  then show ?case by simp
next
  case (Cons y ys)
  from Cons.prems have y_ys: "\<forall>z\<in>set ys. prior y z" and ys: "sorted_wrt prior ys"
    by simp_all
  show ?case
  proof (cases "prior x y")
    case True
    have "\<forall>z\<in>set ys. prior x z"
    proof
      fix z assume "z \<in> set ys"
      with y_ys have "prior y z" by simp
      with True show "prior x z" by (rule trans)
    qed
    with True y_ys ys show ?thesis by simp
  next
    case False
    then have "prior y x" by (rule total)
    moreover have "sorted_wrt prior (insert_by prior x ys)"
      using ys by (rule Cons.IH)
    ultimately show ?thesis
      using False y_ys by (simp add: set_insert_by)
  qed
qed

lemma sorted_sort_by:
  assumes total: "\<And>a b. \<not> prior a b \<Longrightarrow> prior b a"
    and trans: "\<And>a b c. prior a b \<Longrightarrow> prior b c \<Longrightarrow> prior a c"
  shows "sorted_wrt prior (sort_by prior xs)"
proof (induction xs)
  case Nil
  show ?case by simp
next
  case (Cons x xs)
  have "sorted_wrt prior (insert_by prior x (sort_by prior xs))"
    using total trans Cons.IH by (rule sorted_insert_by)
  then show ?case by simp
qed

lemma distinct_map_sort_by:
  "distinct (map f xs) \<Longrightarrow> distinct (map f (sort_by prior xs))"
proof -
  assume "distinct (map f xs)"
  moreover have "mset (map f (sort_by prior xs)) = mset (map f xs)"
    by (simp add: mset_sort_by)
  ultimately show ?thesis by (metis mset_eq_imp_distinct_iff)
qed

section \<open>Facts about the recommendation pipeline\<close>

lemma in_limit_stage: "limit_stage n xs = Inr ys \<Longrightarrow> set ys \<subseteq> set xs"
  by (auto simp: limit_stage_def split: if_splits dest: in_set_takeD)

lemma rank_before_total: "\<not> rank_before a b \<Longrightarrow> rank_before b a"
  by (auto simp: rank_before_def)

lemma rank_before_trans: "rank_before a b \<Longrightarrow> rank_before b c \<Longrightarrow> rank_before a c"
  by (auto simp: rank_before_def)

lemma sorted_rank_before: "sorted_wrt rank_before (sort_by rank_before xs)"
  using rank_before_total rank_before_trans by (rule sorted_sort_by)

lemma video_scoreCandidate: "video (scoreCandidate ar src prefs c) = c"
  by (simp add: scoreCandidate_def Let_def)

lemma finalScore_scoreCandidate:
  "finalScore (scoreCandidate ar src prefs c) =
     d_add ar [real_of_int (similarityScore (scoreCandidate ar src prefs c)),
               d_multiply ar [popularity c, 5], d_multiply ar [recency c, 3]]"
  by (simp add: scoreCandidate_def Let_def)

lemma similarityScore_scoreCandidate:
  "similarityScore (scoreCandidate ar src prefs c) =
     3 * int (card (set (brawlers c) \<inter> set (brawlers src)))
   + 2 * int (card (set (gameModes c) \<inter> set (gameModes src)))
   + 1 * int (card (set (contentType c) \<inter> set (contentType src)))
   + (if creator_id (creator c) = creator_id (creator src) then 4 else 0)
   + 1 * int (card (set (brawlers c) \<inter> set (preferredList prefs)))"
  by (simp add: scoreCandidate_def baseSimilarity_def boostBrawlers_def preferredList_def
      length_setIntersection Let_def split: option.splits)

lemma recommendations_scored:
  assumes "getVideoRecommendations ar store yid limit prefs = Inr rs" and "r \<in> set rs"
  shows "\<exists>src c. getVideoByYoutubeId store yid = Some src \<and> c \<in> set store
           \<and> youtubeId c \<noteq> yid \<and> r = scoreCandidate ar src prefs c"
proof (cases "getVideoByYoutubeId store yid")
  case None
  with assms(1) show ?thesis by (simp add: getVideoRecommendations_def)
next
  case (Some src)
  let ?scored = "map (scoreCandidate ar src prefs) (filter (\<lambda>v. youtubeId v \<noteq> yid) store)"
  from assms(1) Some have "set rs \<subseteq> set (sort_by rank_before ?scored)"
    by (auto simp: getVideoRecommendations_def dest: in_limit_stage)
  with assms(2) have "r \<in> set ?scored" by (auto simp: set_sort_by)
  with Some show ?thesis by auto
qed

lemma recommendations_not_source:
  assumes "getVideoRecommendations ar store yid limit prefs = Inr rs" and "r \<in> set rs"
  shows "youtubeId (video r) \<noteq> yid"
proof -
  from recommendations_scored [OF assms] obtain src c where
    "youtubeId c \<noteq> yid" and "r = scoreCandidate ar src prefs c"
    by blast
  then show ?thesis by (simp add: video_scoreCandidate)
qed

lemma find_None_ids:
  "find (\<lambda>v. youtubeId v = yid) store = None \<longleftrightarrow> yid \<notin> youtubeId ` set store"
  by (auto simp: find_None_iff)

lemma example_run:
  "getVideoRecommendations exact_arith example_store ''src'' (Some 2) None
     = Inr [twin_ranked, colt_ranked]"
  by (simp add: getVideoRecommendations_def getVideoByYoutubeId_def example_defs
      limit_stage_def scoreCandidate_def baseSimilarity_def boostBrawlers_def
      setIntersection_def rank_before_def twin_ranked_def colt_ranked_def
      exact_arith_simps parseInt_def)

lemma example_source: "getVideoByYoutubeId example_store ''src'' = Some mortis_source"
  by (simp add: getVideoByYoutubeId_def example_defs)

lemma example_ids:
  "youtubeId ` set example_store = {''shelly'', ''src'', ''colt'', ''twin''}"
  by (simp add: example_defs)

section \<open>The recommendation scorer\<close>

text \<open>
  C1. Every recommendation that \<open>getVideoRecommendations\<close> returns is a document of the
  store whose \<open>similarityScore\<close> is 3 times the number of brawlers it shares with the
  source video, plus 2 times the number of shared game modes, plus 1 times the number of
  shared content types, plus 4 if its creator id is the source's and 0 otherwise, plus 1
  times the number of its brawlers among the supplied preferred brawlers (nothing when
  none are supplied). The numbers are cardinalities of set intersections. At the example a
  candidate equal to the source in brawlers \<open>{Mortis}\<close>, game modes \<open>{Brawl Ball}\<close>,
  content types \<open>{tutorial}\<close> and creator scores 3 + 2 + 1 + 4 = 10.
\<close>

theorem similarityScore_weights:
  assumes "getVideoRecommendations ar store yid limit prefs = Inr rs" and "r \<in> set rs"
  shows "\<exists>src. getVideoByYoutubeId store yid = Some src
          \<and> video r \<in> set store
          \<and> similarityScore r =
               3 * int (card (set (brawlers (video r)) \<inter> set (brawlers src)))
             + 2 * int (card (set (gameModes (video r)) \<inter> set (gameModes src)))
             + 1 * int (card (set (contentType (video r)) \<inter> set (contentType src)))
             + (if creator_id (creator (video r)) = creator_id (creator src) then 4 else 0)
             + 1 * int (card (set (brawlers (video r)) \<inter> set (preferredList prefs)))"
proof -
  from recommendations_scored [OF assms] obtain src c where
    src: "getVideoByYoutubeId store yid = Some src" and c: "c \<in> set store"
    and r: "r = scoreCandidate ar src prefs c"
    by blast
  have "video r = c" by (simp add: r video_scoreCandidate)
  with src c show ?thesis
    using similarityScore_scoreCandidate [of ar src prefs c] by (auto simp: r)
qed

theorem similarityScore_weights_witness:
  "getVideoRecommendations exact_arith example_store ''src'' (Some 2) None
     = Inr [twin_ranked, colt_ranked]
   \<and> twin_ranked \<in> set [twin_ranked, colt_ranked]
   \<and> getVideoByYoutubeId example_store ''src'' = Some mortis_source
   \<and> video twin_ranked = mortis_twin
   \<and> brawlers mortis_twin = [''Mortis''] \<and> brawlers mortis_source = [''Mortis'']
   \<and> gameModes mortis_twin = [''Brawl Ball''] \<and> gameModes mortis_source = [''Brawl Ball'']
   \<and> contentType mortis_twin = [''tutorial''] \<and> contentType mortis_source = [''tutorial'']
   \<and> creator_id (creator mortis_twin) = creator_id (creator mortis_source)
   \<and> similarityScore twin_ranked = 3 * 1 + 2 * 1 + 1 * 1 + 4 + 1 * 0
   \<and> similarityScore twin_ranked = 10"
proof -
  have member: "twin_ranked \<in> set [twin_ranked, colt_ranked]" by simp
  show ?thesis
    using similarityScore_weights [OF example_run member] example_run example_source
    by (simp add: twin_ranked_def mortis_twin_def mortis_source_def)
qed

text \<open>
  C2. When the source video is in the store and the limit \<open>n\<close> is a positive safe integer,
  \<open>getVideoRecommendations\<close> returns the first \<open>n\<close> entries of a list that holds every
  candidate (every document but the source) exactly once, each with the \<open>finalScore\<close>
  that the store computes as the sum of \<open>similarityScore\<close>, \<open>5 * popularity\<close> and
  \<open>3 * recency\<close> in its arithmetic on doubles, in descending order of \<open>finalScore\<close> and,
  among equal scores, descending order of \<open>publishedAt\<close>. A call without a limit is a
  call with the limit 6.
\<close>

theorem recommendations_ranked:
  assumes found: "getVideoByYoutubeId store yid = Some src"
    and pos: "0 < n" and safe: "safe_integer n"
  shows "\<exists>ranked.
           getVideoRecommendations ar store yid (Some n) prefs = Inr (take (nat n) ranked)
         \<and> mset ranked =
             mset (map (scoreCandidate ar src prefs) (filter (\<lambda>v. youtubeId v \<noteq> yid) store))
         \<and> sorted_wrt (\<lambda>a b. finalScore a > finalScore b
               \<or> (finalScore a = finalScore b \<and> publishedAt (video a) \<ge> publishedAt (video b)))
             ranked
         \<and> (\<forall>r\<in>set ranked.
               finalScore r =
                 d_add ar [real_of_int (similarityScore r),
                           d_multiply ar [popularity (video r), 5],
                           d_multiply ar [recency (video r), 3]])
         \<and> getVideoRecommendations ar store yid None prefs
             = getVideoRecommendations ar store yid (Some 6) prefs"
proof -
  let ?scored = "map (scoreCandidate ar src prefs) (filter (\<lambda>v. youtubeId v \<noteq> yid) store)"
  let ?ranked = "sort_by rank_before ?scored"
  have run: "getVideoRecommendations ar store yid (Some n) prefs = Inr (take (nat n) ?ranked)"
    using found pos by (simp add: getVideoRecommendations_def limit_stage_def parseInt_safe [OF safe])
  have perm: "mset ?ranked = mset ?scored"
    by (rule mset_sort_by)
  have "sorted_wrt rank_before ?ranked"
    by (rule sorted_rank_before)
  then have ordered: "sorted_wrt (\<lambda>a b. finalScore a > finalScore b
               \<or> (finalScore a = finalScore b \<and> publishedAt (video a) \<ge> publishedAt (video b)))
             ?ranked"
    by (rule sorted_wrt_mono_rel [rotated]) (simp add: rank_before_def)
  have scores: "\<forall>r\<in>set ?ranked.
               finalScore r =
                 d_add ar [real_of_int (similarityScore r),
                           d_multiply ar [popularity (video r), 5],
                           d_multiply ar [recency (video r), 3]]"
  proof
    fix r assume "r \<in> set ?ranked"
    then have "r \<in> set ?scored" by (simp only: set_sort_by)
    then obtain c where "r = scoreCandidate ar src prefs c" by auto
    then show "finalScore r =
                 d_add ar [real_of_int (similarityScore r),
                           d_multiply ar [popularity (video r), 5],
                           d_multiply ar [recency (video r), 3]]"
      by (simp add: finalScore_scoreCandidate video_scoreCandidate)
  qed
  have dflt: "getVideoRecommendations ar store yid None prefs
             = getVideoRecommendations ar store yid (Some 6) prefs"
    using found by (simp add: getVideoRecommendations_def)
  from run perm ordered scores dflt show ?thesis by blast
qed

theorem recommendations_ranked_witness:
  "getVideoByYoutubeId example_store ''src'' = Some mortis_source
   \<and> (0::int) < 2 \<and> safe_integer 2
   \<and> getVideoRecommendations exact_arith example_store ''src'' (Some 2) None
       = Inr [twin_ranked, colt_ranked]
   \<and> finalScore twin_ranked = 10 + 5 * (1/2) + 3 * (1/4)
   \<and> finalScore colt_ranked = 2 + 5 * 1 + 3 * 1
   \<and> finalScore twin_ranked > finalScore colt_ranked
   \<and> length [twin_ranked, colt_ranked] = 2"
proof -
  have pos: "(0::int) < 2" and safe: "safe_integer 2" by (simp_all add: safe_integer_def)
  show ?thesis
    using recommendations_ranked [OF example_source pos safe, of exact_arith None]
      example_source example_run safe
    by (simp add: twin_ranked_def colt_ranked_def)
qed

text \<open>
  C10. When no document of the store has the given id, \<open>getVideoRecommendations\<close> fails
  with \<open>VideoNotFound\<close>; it returns a list (possibly empty) only when the source is in
  the store, and no entry of a returned list has the source's id. With the source in the
  store and a positive limit it does return a list.
\<close>

theorem recommendations_exclude_source:
  "(yid \<notin> youtubeId ` set store \<longrightarrow>
      getVideoRecommendations ar store yid limit prefs = Inl (VideoNotFound yid))
   \<and> (yid \<in> youtubeId ` set store \<longrightarrow> 0 < n \<longrightarrow>
        (\<exists>rs. getVideoRecommendations ar store yid (Some n) prefs = Inr rs
           \<and> (\<forall>r\<in>set rs. youtubeId (video r) \<noteq> yid)))
   \<and> (\<forall>rs. getVideoRecommendations ar store yid limit prefs = Inr rs \<longrightarrow>
        yid \<in> youtubeId ` set store \<and> (\<forall>r\<in>set rs. youtubeId (video r) \<noteq> yid))"
proof (intro conjI impI allI)
  assume "yid \<notin> youtubeId ` set store"
  then have "getVideoByYoutubeId store yid = None"
    by (simp add: getVideoByYoutubeId_def find_None_ids)
  then show "getVideoRecommendations ar store yid limit prefs = Inl (VideoNotFound yid)"
    by (simp add: getVideoRecommendations_def)
next
  fix rs assume run: "getVideoRecommendations ar store yid limit prefs = Inr rs"
  then have "getVideoByYoutubeId store yid \<noteq> None"
    by (auto simp: getVideoRecommendations_def split: option.splits)
  then show "yid \<in> youtubeId ` set store"
    by (simp add: getVideoByYoutubeId_def find_None_ids)
next
  fix rs assume run: "getVideoRecommendations ar store yid limit prefs = Inr rs"
  show "\<forall>r\<in>set rs. youtubeId (video r) \<noteq> yid"
  proof
    fix r assume "r \<in> set rs"
    with run show "youtubeId (video r) \<noteq> yid" by (rule recommendations_not_source)
  qed
next
  assume "yid \<in> youtubeId ` set store" and pos: "0 < n"
  then have "getVideoByYoutubeId store yid \<noteq> None"
    by (simp add: getVideoByYoutubeId_def find_None_ids)
  moreover from pos have "0 < parseInt n" by (rule parseInt_pos)
  ultimately obtain rs where
    run: "getVideoRecommendations ar store yid (Some n) prefs = Inr rs"
    by (auto simp: getVideoRecommendations_def limit_stage_def)
  then have "\<forall>r\<in>set rs. youtubeId (video r) \<noteq> yid"
    by (blast dest: recommendations_not_source)
  with run show "\<exists>rs. getVideoRecommendations ar store yid (Some n) prefs = Inr rs
           \<and> (\<forall>r\<in>set rs. youtubeId (video r) \<noteq> yid)" by blast
qed

theorem recommendations_exclude_source_witness:
  "''nope'' \<notin> youtubeId ` set example_store
   \<and> getVideoRecommendations exact_arith example_store ''nope'' None None
       = Inl (VideoNotFound ''nope'')
   \<and> ''src'' \<in> youtubeId ` set example_store
   \<and> (0::int) < 2
   \<and> map_sum id (map (\<lambda>r. youtubeId (video r)))
        (getVideoRecommendations exact_arith example_store ''src'' (Some 2) None)
       = Inr [''twin'', ''colt'']"
  using recommendations_exclude_source [of "''nope''" example_store exact_arith None None 2]
    recommendations_exclude_source [of "''src''" example_store exact_arith "Some 2" None 2]
  by (simp add: example_ids example_run twin_ranked_def colt_ranked_def)
     (simp add: example_defs)

section \<open>The search predicate\<close>

lemma in_match_Some: "in_match (Some vs) field \<longleftrightarrow> set field \<inter> set vs \<noteq> {}"
  by (auto simp: in_match_def list_ex_iff)

lemma in_match_None: "in_match None field"
  by (simp add: in_match_def)

text \<open>A query of a space, a no-break space and a tab is blank; one with a letter is not.\<close>

lemma blank_query:
  "\<not> has_text []"
  "\<not> has_text [0x0020, 0x00A0, 0x0009]"
  "has_text [0x0020, 0x0061, 0x00A0]"
  by (simp_all add: has_text_def trim_def is_space_def)

lemma dbQuery_fields:
  "q_text (dbQuery params) = (if has_text (p_query params) then Some (p_query params) else None)"
  "q_brawlers (dbQuery params) =
     (if p_brawlers params \<noteq> [] then Some (p_brawlers params) else None)"
  "q_gameModes (dbQuery params) =
     (if p_gameModes params \<noteq> [] then Some (p_gameModes params) else None)"
  "q_contentType (dbQuery params) =
     (if p_contentType params \<noteq> [] then Some (p_contentType params) else None)"
  "q_skillLevel (dbQuery params) =
     (if p_skillLevel params \<noteq> [] then Some (p_skillLevel params) else None)"
  "q_creator_id (dbQuery params) =
     (if p_channelId params \<noteq> [] then Some (p_channelId params) else None)"
  "q_viewCount (dbQuery params) =
     (if 0 < p_minViews params then Some (parseInt (p_minViews params)) else None)"
  "q_duration (dbQuery params) =
     (if 0 < p_maxDuration params then Some (parseInt (p_maxDuration params)) else None)"
  by (simp_all add: dbQuery_def)

lemma text_constraint:
  "(case q_text (dbQuery params) of None \<Rightarrow> True | Some s \<Rightarrow> textMatches ts s v)
     \<longleftrightarrow> (has_text (p_query params) \<longrightarrow> textMatches ts (p_query params) v)"
  by (simp add: dbQuery_fields(1))

lemma brawlers_constraint:
  "in_match (q_brawlers (dbQuery params)) field
     \<longleftrightarrow> (p_brawlers params \<noteq> [] \<longrightarrow> set field \<inter> set (p_brawlers params) \<noteq> {})"
  by (simp add: dbQuery_fields(2) in_match_Some in_match_None)

lemma gameModes_constraint:
  "in_match (q_gameModes (dbQuery params)) field
     \<longleftrightarrow> (p_gameModes params \<noteq> [] \<longrightarrow> set field \<inter> set (p_gameModes params) \<noteq> {})"
  by (simp add: dbQuery_fields(3) in_match_Some in_match_None)

lemma contentType_constraint:
  "in_match (q_contentType (dbQuery params)) field
     \<longleftrightarrow> (p_contentType params \<noteq> [] \<longrightarrow> set field \<inter> set (p_contentType params) \<noteq> {})"
  by (simp add: dbQuery_fields(4) in_match_Some in_match_None)

lemma skillLevel_constraint:
  "eq_match (q_skillLevel (dbQuery params)) field
     \<longleftrightarrow> (p_skillLevel params \<noteq> [] \<longrightarrow> field = p_skillLevel params)"
  by (simp add: dbQuery_fields(5) eq_match_def)

lemma creator_constraint:
  "eq_match (q_creator_id (dbQuery params)) field
     \<longleftrightarrow> (p_channelId params \<noteq> [] \<longrightarrow> field = p_channelId params)"
  by (simp add: dbQuery_fields(6) eq_match_def)

lemma viewCount_constraint:
  "(case q_viewCount (dbQuery params) of None \<Rightarrow> True | Some n \<Rightarrow> n \<le> views)
     \<longleftrightarrow> (0 < p_minViews params \<longrightarrow> parseInt (p_minViews params) \<le> views)"
  by (simp add: dbQuery_fields(7))

lemma duration_constraint:
  "(case q_duration (dbQuery params) of None \<Rightarrow> True | Some n \<Rightarrow> secs \<le> n)
     \<longleftrightarrow> (0 < p_maxDuration params \<longrightarrow> secs \<le> parseInt (p_maxDuration params))"
  by (simp add: dbQuery_fields(8))

lemma publishedAt_constraint:
  "range_match (q_publishedAt (dbQuery params)) field
     \<longleftrightarrow> (p_dateFrom params \<noteq> [] \<longrightarrow> p_dateFrom params \<le> field)
       \<and> (p_dateTo params \<noteq> [] \<longrightarrow> field \<le> p_dateTo params)"
  by (simp add: dbQuery_def range_match_def)

lemmas constraint_simps =
  text_constraint brawlers_constraint gameModes_constraint contentType_constraint
  skillLevel_constraint creator_constraint viewCount_constraint duration_constraint
  publishedAt_constraint

lemma matches_dbQuery:
  "matches ts (dbQuery params) v \<longleftrightarrow>
     (has_text (p_query params) \<longrightarrow> textMatches ts (p_query params) v)
   \<and> (p_brawlers params \<noteq> [] \<longrightarrow> set (brawlers v) \<inter> set (p_brawlers params) \<noteq> {})
   \<and> (p_gameModes params \<noteq> [] \<longrightarrow> set (gameModes v) \<inter> set (p_gameModes params) \<noteq> {})
   \<and> (p_contentType params \<noteq> [] \<longrightarrow> set (contentType v) \<inter> set (p_contentType params) \<noteq> {})
   \<and> (p_skillLevel params \<noteq> [] \<longrightarrow> skillLevel v = p_skillLevel params)
   \<and> (p_channelId params \<noteq> [] \<longrightarrow> creator_id (creator v) = p_channelId params)
   \<and> (0 < p_minViews params \<longrightarrow> parseInt (p_minViews params) \<le> viewCount v)
   \<and> (0 < p_maxDuration params \<longrightarrow> duration v \<le> parseInt (p_maxDuration params))
   \<and> (p_dateFrom params \<noteq> [] \<longrightarrow> p_dateFrom params \<le> publishedAt v)
   \<and> (p_dateTo params \<noteq> [] \<longrightarrow> publishedAt v \<le> p_dateTo params)"
  unfolding matches_def constraint_simps by (simp only: conj_assoc)

text \<open>
  C6. When the free-text query is empty (or only white space), the brawler, game-mode and
  content-type sets are empty, the skill level and the channel id are empty, no date
  bound is given and \<open>minViews\<close> and \<open>maxDuration\<close> are 0 (or less), the predicate that
  \<open>searchVideos\<close> builds matches every video document, whatever the text index.
\<close>

theorem empty_filter_matches_all:
  assumes "trim (p_query params) = []"
    and "p_brawlers params = []" and "p_gameModes params = []" and "p_contentType params = []"
    and "p_skillLevel params = []"
    and "p_minViews params \<le> 0" and "p_maxDuration params \<le> 0"
    and "p_dateFrom params = []" and "p_dateTo params = []" and "p_channelId params = []"
  shows "matches ts (dbQuery params) v"
  using assms by (simp add: matches_dbQuery has_text_def)

theorem empty_filter_matches_all_witness:
  "trim (p_query no_filter) = []
   \<and> p_brawlers no_filter = [] \<and> p_gameModes no_filter = [] \<and> p_contentType no_filter = []
   \<and> p_skillLevel no_filter = [] \<and> p_minViews no_filter \<le> 0 \<and> p_maxDuration no_filter \<le> 0
   \<and> p_dateFrom no_filter = [] \<and> p_dateTo no_filter = [] \<and> p_channelId no_filter = []
   \<and> matches title_index (dbQuery no_filter) shelly_video
   \<and> filter (matches title_index (dbQuery no_filter)) example_store = example_store"
proof -
  have h: "trim (p_query no_filter) = []" "p_brawlers no_filter = []"
    "p_gameModes no_filter = []" "p_contentType no_filter = []" "p_skillLevel no_filter = []"
    "p_minViews no_filter \<le> 0" "p_maxDuration no_filter \<le> 0"
    "p_dateFrom no_filter = []" "p_dateTo no_filter = []" "p_channelId no_filter = []"
    by (simp_all add: no_filter_def trim_def)
  show ?thesis
    using h empty_filter_matches_all [OF h, of title_index] by simp
qed

text \<open>
  C7. A non-empty brawler filter constrains a document to share at least one brawler with
  it: the constraint holds if and only if the document's brawler set meets the filter
  set. The same holds for game modes and content types; an empty filter set puts no
  constraint on its field. The predicate of the search is the conjunction of these three
  constraints with the predicate of the request without them.
\<close>

theorem set_filters_intersect:
  "(p_brawlers params \<noteq> [] \<longrightarrow>
      (in_match (q_brawlers (dbQuery params)) (brawlers v)
         \<longleftrightarrow> set (brawlers v) \<inter> set (p_brawlers params) \<noteq> {}))
   \<and> (p_gameModes params \<noteq> [] \<longrightarrow>
      (in_match (q_gameModes (dbQuery params)) (gameModes v)
         \<longleftrightarrow> set (gameModes v) \<inter> set (p_gameModes params) \<noteq> {}))
   \<and> (p_contentType params \<noteq> [] \<longrightarrow>
      (in_match (q_contentType (dbQuery params)) (contentType v)
         \<longleftrightarrow> set (contentType v) \<inter> set (p_contentType params) \<noteq> {}))
   \<and> (p_brawlers params = [] \<longrightarrow> in_match (q_brawlers (dbQuery params)) (brawlers v))
   \<and> (p_gameModes params = [] \<longrightarrow> in_match (q_gameModes (dbQuery params)) (gameModes v))
   \<and> (p_contentType params = [] \<longrightarrow> in_match (q_contentType (dbQuery params)) (contentType v))
   \<and> (matches ts (dbQuery params) v \<longleftrightarrow>
        in_match (q_brawlers (dbQuery params)) (brawlers v)
      \<and> in_match (q_gameModes (dbQuery params)) (gameModes v)
      \<and> in_match (q_contentType (dbQuery params)) (contentType v)
      \<and> matches ts
          (dbQuery (params \<lparr> p_brawlers := [], p_gameModes := [], p_contentType := [] \<rparr>)) v)"
proof (intro conjI impI)
  show "matches ts (dbQuery params) v \<longleftrightarrow>
        in_match (q_brawlers (dbQuery params)) (brawlers v)
      \<and> in_match (q_gameModes (dbQuery params)) (gameModes v)
      \<and> in_match (q_contentType (dbQuery params)) (contentType v)
      \<and> matches ts
          (dbQuery (params \<lparr> p_brawlers := [], p_gameModes := [], p_contentType := [] \<rparr>)) v"
    unfolding matches_dbQuery brawlers_constraint gameModes_constraint contentType_constraint
    by simp blast
qed (simp_all add: brawlers_constraint gameModes_constraint contentType_constraint)

theorem set_filters_intersect_witness:
  "p_brawlers (no_filter \<lparr> p_brawlers := [''Shelly'', ''Colt''] \<rparr>) \<noteq> []
   \<and> brawlers shelly_video = [''Shelly'']
   \<and> matches title_index (dbQuery (no_filter \<lparr> p_brawlers := [''Shelly'', ''Colt''] \<rparr>)) shelly_video
   \<and> \<not> matches title_index (dbQuery (no_filter \<lparr> p_brawlers := [''Mortis''] \<rparr>)) shelly_video
   \<and> p_gameModes no_filter = []
   \<and> in_match (q_gameModes (dbQuery no_filter)) (gameModes shelly_video)"
  using set_filters_intersect [of "no_filter \<lparr> p_brawlers := [''Shelly'', ''Colt''] \<rparr>" shelly_video title_index]
    set_filters_intersect [of "no_filter \<lparr> p_brawlers := [''Mortis''] \<rparr>" shelly_video title_index]
    set_filters_intersect [of no_filter shelly_video title_index]
  by (simp add: no_filter_def shelly_video_def matches_dbQuery has_text_def trim_def)

section \<open>Sorting and paging of search results\<close>

lemma directed_swap:
  "directed d x y = Behind \<longleftrightarrow> directed d y x = Ahead"
  "directed d x y = Level \<longleftrightarrow> directed d y x = Level"
  by (auto simp: directed_def place_def)

lemma directed_chain:
  "directed d x y \<noteq> Behind \<Longrightarrow> directed d y z \<noteq> Behind \<Longrightarrow>
     directed d x z = (if directed d x y = Level \<and> directed d y z = Level then Level else Ahead)"
  by (auto simp: directed_def place_def split: if_splits)

lemma entry_place_swap:
  "entry_place ts q e a b = Behind \<longleftrightarrow> entry_place ts q e b a = Ahead"
  "entry_place ts q e a b = Level \<longleftrightarrow> entry_place ts q e b a = Level"
  by (induction ts q e a b rule: entry_place.induct)
     (simp_all only: entry_place.simps directed_swap)

lemma entry_place_chain:
  assumes "entry_place ts q e a b \<noteq> Behind" and "entry_place ts q e b c \<noteq> Behind"
  shows "entry_place ts q e a c =
     (if entry_place ts q e a b = Level \<and> entry_place ts q e b c = Level then Level else Ahead)"
proof (cases e)
  case TextScoreMeta
  with assms show ?thesis
    by (simp only: entry_place.simps) (rule directed_chain)
next
  case (Field f d)
  with assms show ?thesis
    by (cases f; simp only: entry_place.simps) (rule directed_chain; assumption)+
qed

lemma sorts_before_total: "\<not> sorts_before ts q es a b \<Longrightarrow> sorts_before ts q es b a"
proof (induction es)
  case Nil
  then show ?case by simp
next
  case (Cons e es)
  show ?case
  proof (cases "entry_place ts q e a b")
    case Ahead
    with Cons.prems show ?thesis by simp
  next
    case Level
    then have "entry_place ts q e b a = Level" by (simp add: entry_place_swap(2))
    with Level Cons show ?thesis by simp
  next
    case Behind
    then have "entry_place ts q e b a = Ahead" by (simp add: entry_place_swap(1))
    then show ?thesis by simp
  qed
qed

lemma sorts_before_trans:
  "sorts_before ts q es a b \<Longrightarrow> sorts_before ts q es b c \<Longrightarrow> sorts_before ts q es a c"
proof (induction es)
  case Nil
  then show ?case by simp
next
  case (Cons e es)
  from Cons.prems have ab: "entry_place ts q e a b \<noteq> Behind"
    and bc: "entry_place ts q e b c \<noteq> Behind"
    by (auto split: placing.splits)
  show ?case
  proof (cases "entry_place ts q e a b = Level \<and> entry_place ts q e b c = Level")
    case True
    with entry_place_chain [OF ab bc] have "entry_place ts q e a c = Level" by simp
    moreover from True Cons.prems have "sorts_before ts q es a b" "sorts_before ts q es b c"
      by simp_all
    then have "sorts_before ts q es a c" by (rule Cons.IH)
    ultimately show ?thesis by simp
  next
    case False
    with entry_place_chain [OF ab bc] have "entry_place ts q e a c = Ahead" by simp
    then show ?thesis by simp
  qed
qed

lemma sorted_sorts_before: "sorted_wrt (sorts_before ts q es) (sort_by (sorts_before ts q es) xs)"
  using sorts_before_total sorts_before_trans by (rule sorted_sort_by)



lemma ceil_quotient_ceiling:
  "l \<noteq> 0 \<Longrightarrow> ceil_quotient t l = Num \<lceil>real_of_int t / real_of_int l\<rceil>"
  by (simp add: ceil_quotient_def ceiling_divide_eq_div)

text \<open>On safe numbers \<^verbatim>\<open>parseInt\<close> changes nothing, and the search is the slice of the sorted
  matches with the pagination computed from the page and the page size as given.\<close>

lemma searchVideos_safe:
  assumes "safe_numbers params"
  shows "searchVideos ts store params =
     (case cursor_skip_limit
             (((case p_page params of None \<Rightarrow> 1 | Some n \<Rightarrow> n) - 1)
                * (case p_limit params of None \<Rightarrow> 20 | Some n \<Rightarrow> n))
             (case p_limit params of None \<Rightarrow> 20 | Some n \<Rightarrow> n)
             (sort_by
                (sorts_before ts (p_query params)
                   (sortOptions (case p_sortBy params of None \<Rightarrow> ''relevance'' | Some s \<Rightarrow> s)
                      (p_query params)))
                (filter (matches ts (dbQuery params)) store)) of
        Inl e \<Rightarrow> Inl e
      | Inr vs \<Rightarrow>
          Inr \<lparr> videos = vs,
                pagination =
                  \<lparr> pg_total = int (length (filter (matches ts (dbQuery params)) store)),
                    pg_page = (case p_page params of None \<Rightarrow> 1 | Some n \<Rightarrow> n),
                    pg_limit = (case p_limit params of None \<Rightarrow> 20 | Some n \<Rightarrow> n),
                    pg_pages =
                      ceil_quotient (int (length (filter (matches ts (dbQuery params)) store)))
                        (case p_limit params of None \<Rightarrow> 20 | Some n \<Rightarrow> n) \<rparr> \<rparr>)"
proof -
  from assms have "parseInt (case p_page params of None \<Rightarrow> 1 | Some n \<Rightarrow> n)
      = (case p_page params of None \<Rightarrow> 1 | Some n \<Rightarrow> n)"
    and "parseInt (case p_limit params of None \<Rightarrow> 20 | Some n \<Rightarrow> n)
      = (case p_limit params of None \<Rightarrow> 20 | Some n \<Rightarrow> n)"
    by (simp_all add: safe_numbers_def parseInt_safe)
  then show ?thesis by (simp add: searchVideos_def Let_def)
qed

lemma search_page:
  assumes page: "page = (case p_page params of None \<Rightarrow> 1 | Some n \<Rightarrow> n)" "1 \<le> page"
    and size: "pageSize = (case p_limit params of None \<Rightarrow> 20 | Some n \<Rightarrow> n)" "1 \<le> pageSize"
    and safe: "safe_numbers params"
    and sortBy: "sortBy = (case p_sortBy params of None \<Rightarrow> ''relevance'' | Some s \<Rightarrow> s)"
  shows "\<exists>ordered.
      mset ordered = mset (filter (matches ts (dbQuery params)) store)
    \<and> sorted_wrt (sorts_before ts (p_query params) (sortOptions sortBy (p_query params))) ordered
    \<and> searchVideos ts store params =
        Inr \<lparr> videos = take (nat pageSize) (drop (nat ((page - 1) * pageSize)) ordered),
              pagination =
                \<lparr> pg_total = int (length ordered), pg_page = page, pg_limit = pageSize,
                  pg_pages = Num \<lceil>real (length ordered) / real_of_int pageSize\<rceil> \<rparr> \<rparr>"
proof -
  let ?matched = "filter (matches ts (dbQuery params)) store"
  let ?ordered = "sort_by
                (sorts_before ts (p_query params)
                   (sortOptions (case p_sortBy params of None \<Rightarrow> ''relevance'' | Some s \<Rightarrow> s)
                      (p_query params))) ?matched"
  have perm: "mset ?ordered = mset ?matched" by (rule mset_sort_by)
  have len: "length ?ordered = length ?matched" by (rule length_sort_by)
  have sorted: "sorted_wrt (sorts_before ts (p_query params) (sortOptions sortBy (p_query params)))
      ?ordered"
    unfolding sortBy by (rule sorted_sorts_before)
  have skip: "0 \<le> (page - 1) * pageSize" using page(2) size(2) by simp
  have slice: "cursor_skip_limit ((page - 1) * pageSize) pageSize ?ordered =
      Inr (take (nat pageSize) (drop (nat ((page - 1) * pageSize)) ?ordered))"
    using skip size(2) by (simp add: cursor_skip_limit_def)
  have pages: "ceil_quotient (int (length ?matched)) pageSize =
      Num \<lceil>real (length ?ordered) / real_of_int pageSize\<rceil>"
    using size(2) by (simp add: ceil_quotient_ceiling len)
  have run: "searchVideos ts store params =
        Inr \<lparr> videos = take (nat pageSize) (drop (nat ((page - 1) * pageSize)) ?ordered),
              pagination =
                \<lparr> pg_total = int (length ?ordered), pg_page = page, pg_limit = pageSize,
                  pg_pages = Num \<lceil>real (length ?ordered) / real_of_int pageSize\<rceil> \<rparr> \<rparr>"
    by (simp only: searchVideos_safe [OF safe] page(1) [symmetric] size(1) [symmetric] slice
        sum.case pages len)
  from perm sorted run show ?thesis by blast
qed

lemma no_filter_matches: "matches ts (dbQuery (page_request page pageSize)) v"
  by (simp add: matches_dbQuery page_request_def no_filter_def has_text_def)

lemma page_request_fields:
  "p_query (page_request page pageSize) = []"
  "p_sortBy (page_request page pageSize) = None"
  "p_limit (page_request page pageSize) = Some pageSize"
  "p_page (page_request page pageSize) = Some page"
  by (simp_all add: page_request_def no_filter_def)

lemma page_request_all:
  "filter (matches ts (dbQuery (page_request page pageSize))) store = store"
  by (simp add: no_filter_matches)

lemma page_request_safe:
  "safe_numbers (page_request page pageSize) \<longleftrightarrow>
     safe_integer page \<and> safe_integer pageSize \<and> safe_integer ((page - 1) * pageSize)"
  by (simp add: safe_numbers_def page_request_def no_filter_def safe_integer_def)

lemma relevance_order:
  "sort_by (sorts_before ts [] (sortOptions ''relevance'' [])) example_store
     = [colt_video, mortis_source, mortis_twin, shelly_video]"
  by (simp add: sortOptions_def has_text_def directed_def place_def example_defs)

lemma page_request_run:
  assumes "safe_numbers (page_request page pageSize)"
  shows "searchVideos ts example_store (page_request page pageSize) =
     (case cursor_skip_limit ((page - 1) * pageSize) pageSize
             [colt_video, mortis_source, mortis_twin, shelly_video] of
        Inl e \<Rightarrow> Inl e
      | Inr vs \<Rightarrow>
          Inr \<lparr> videos = vs,
                pagination = \<lparr> pg_total = 4, pg_page = page, pg_limit = pageSize,
                               pg_pages = ceil_quotient 4 pageSize \<rparr> \<rparr>)"
proof -
  have "int (length example_store) = 4" by (simp add: example_store_def)
  then show ?thesis
    by (simp only: searchVideos_safe [OF assms] page_request_fields option.case
        page_request_all relevance_order)
qed

text \<open>
  C4. For a page \<open>\<ge> 1\<close> and a page size \<open>\<ge> 1\<close> (an absent page is 1, an absent page
  size 20), safe integers like the other numbers of the request and the size of the
  store, the search raises no error. It returns the slice that starts at offset
  \<open>(page - 1) * pageSize\<close> and has at most \<open>pageSize\<close> entries of a list that holds
  every match once, in the order of the sort document; it reports the number of matches
  as the total and the ceiling of total / pageSize as the number of pages, which is 0 for
  no match. When the offset is at or past the total the slice is empty and the reported
  number of pages is unchanged: 25 matches in pages of 10 give 3 pages, also for page 4.
\<close>

theorem pagination_metadata:
  assumes page: "page = (case p_page params of None \<Rightarrow> 1 | Some n \<Rightarrow> n)" "1 \<le> page"
    and size: "pageSize = (case p_limit params of None \<Rightarrow> 20 | Some n \<Rightarrow> n)" "1 \<le> pageSize"
    and safe: "safe_numbers params"
    and docs: "safe_integer (int (length store))"
  shows "\<exists>ordered.
      mset ordered = mset (filter (matches ts (dbQuery params)) store)
    \<and> sorted_wrt
        (sorts_before ts (p_query params)
           (sortOptions (case p_sortBy params of None \<Rightarrow> ''relevance'' | Some s \<Rightarrow> s)
              (p_query params)))
        ordered
    \<and> searchVideos ts store params =
        Inr \<lparr> videos = take (nat pageSize) (drop (nat ((page - 1) * pageSize)) ordered),
              pagination =
                \<lparr> pg_total = int (length ordered), pg_page = page, pg_limit = pageSize,
                  pg_pages = Num \<lceil>real (length ordered) / real_of_int pageSize\<rceil> \<rparr> \<rparr>
    \<and> (length ordered = 0 \<longrightarrow> \<lceil>real (length ordered) / real_of_int pageSize\<rceil> = 0)
    \<and> (int (length ordered) \<le> (page - 1) * pageSize \<longrightarrow>
         take (nat pageSize) (drop (nat ((page - 1) * pageSize)) ordered) = [])"
proof -
  from search_page [OF page size safe refl, of ts store] obtain ordered where
    perm: "mset ordered = mset (filter (matches ts (dbQuery params)) store)"
    and sorted: "sorted_wrt
        (sorts_before ts (p_query params)
           (sortOptions (case p_sortBy params of None \<Rightarrow> ''relevance'' | Some s \<Rightarrow> s)
              (p_query params)))
        ordered"
    and run: "searchVideos ts store params =
        Inr \<lparr> videos = take (nat pageSize) (drop (nat ((page - 1) * pageSize)) ordered),
              pagination =
                \<lparr> pg_total = int (length ordered), pg_page = page, pg_limit = pageSize,
                  pg_pages = Num \<lceil>real (length ordered) / real_of_int pageSize\<rceil> \<rparr> \<rparr>"
    by blast
  have zero: "length ordered = 0 \<longrightarrow> \<lceil>real (length ordered) / real_of_int pageSize\<rceil> = 0"
    by simp
  have past: "int (length ordered) \<le> (page - 1) * pageSize \<longrightarrow>
         take (nat pageSize) (drop (nat ((page - 1) * pageSize)) ordered) = []"
    by simp
  from perm sorted run zero past show ?thesis by blast
qed

theorem pagination_metadata_witness:
  "4 = (case p_page (page_request 4 10) of None \<Rightarrow> 1 | Some n \<Rightarrow> n) \<and> (1::int) \<le> 4
   \<and> 10 = (case p_limit (page_request 4 10) of None \<Rightarrow> 20 | Some n \<Rightarrow> n) \<and> (1::int) \<le> 10
   \<and> safe_numbers (page_request 4 10)
   \<and> safe_integer (int (length (numbered_store 25)))
   \<and> searchVideos title_index (numbered_store 25) (page_request 4 10) =
        Inr \<lparr> videos = [],
              pagination = \<lparr> pg_total = 25, pg_page = 4, pg_limit = 10, pg_pages = Num 3 \<rparr> \<rparr>
   \<and> listing (searchVideos title_index example_store (page_request 2 2))
        = Inr [''twin'', ''shelly'']"
proof -
  have h: "4 = (case p_page (page_request 4 10) of None \<Rightarrow> 1 | Some n \<Rightarrow> n)" "(1::int) \<le> 4"
    "10 = (case p_limit (page_request 4 10) of None \<Rightarrow> 20 | Some n \<Rightarrow> n)" "(1::int) \<le> 10"
    by (simp_all add: page_request_def no_filter_def)
  have safe: "safe_numbers (page_request 4 10)"
    by (simp add: page_request_safe safe_integer_def)
  have docs: "safe_integer (int (length (numbered_store 25)))"
    by (simp add: numbered_store_def safe_integer_def)
  have all: "filter (matches title_index (dbQuery (page_request 4 10))) (numbered_store 25)
      = numbered_store 25"
    by (simp add: no_filter_matches)
  from pagination_metadata [OF h safe docs, of title_index] obtain ordered where
    perm: "mset ordered = mset (numbered_store 25)"
    and run: "searchVideos title_index (numbered_store 25) (page_request 4 10) =
        Inr \<lparr> videos = take (nat 10) (drop (nat ((4 - 1) * 10)) ordered),
              pagination =
                \<lparr> pg_total = int (length ordered), pg_page = 4, pg_limit = 10,
                  pg_pages = Num \<lceil>real (length ordered) / real_of_int 10\<rceil> \<rparr> \<rparr>"
    unfolding all by blast
  from perm have "length ordered = length (numbered_store 25)"
    by (metis size_mset)
  then have len: "length ordered = 25" by (simp add: numbered_store_def)
  have ceil: "\<lceil>(25::real) / 10\<rceil> = 3" by linarith
  from run have first: "searchVideos title_index (numbered_store 25) (page_request 4 10) =
        Inr \<lparr> videos = [],
              pagination = \<lparr> pg_total = 25, pg_page = 4, pg_limit = 10, pg_pages = Num 3 \<rparr> \<rparr>"
    by (simp add: len ceil)
  have "safe_numbers (page_request 2 2)"
    by (simp add: page_request_safe safe_integer_def)
  then have second: "listing (searchVideos title_index example_store (page_request 2 2))
        = Inr [''twin'', ''shelly'']"
    by (simp add: page_request_run cursor_skip_limit_def listing_def) (simp add: example_defs)
  from h safe docs first second show ?thesis by simp
qed












text \<open>
  C5, as stated, fails: the search corrects neither value. Page 0 with page size 20 gives
  the offset \<open>-20\<close>, which the store rejects, so the search raises an error where page 1
  returns the videos; and a page size of 0 is reported back as 0 with an infinite number
  of pages, not replaced by the default.
\<close>

theorem invalid_page_counterexample:
  "searchVideos title_index example_store (page_request 0 20) = Inl (NegativeSkip (- 20))
   \<and> listing (searchVideos title_index example_store (page_request 1 20))
       = Inr [''colt'', ''src'', ''twin'', ''shelly'']
   \<and> map_sum id pagination (searchVideos title_index example_store (page_request 1 0))
       = Inr \<lparr> pg_total = 4, pg_page = 1, pg_limit = 0, pg_pages = PosInfinity \<rparr>"
proof -
  have "safe_numbers (page_request 0 20)" "safe_numbers (page_request 1 20)"
    "safe_numbers (page_request 1 0)"
    by (simp_all add: page_request_safe safe_integer_def)
  then show ?thesis
    by (simp add: page_request_run cursor_skip_limit_def listing_def ceil_quotient_def)
       (simp add: example_defs)
qed

text \<open>
  C5, amended. \<open>searchVideos\<close> applies no clamping. In a request of safe integers, with a
  page \<open>\<le> 0\<close> and a page size \<open>\<ge> 1\<close> the offset \<open>(page - 1) * pageSize\<close> is negative and
  the search fails with the store's error; it fails whenever that offset is negative.
  Otherwise it returns a result whose pagination reports the page and the page size
  exactly as they were given.
\<close>

theorem invalid_page_rejected:
  assumes page: "page = (case p_page params of None \<Rightarrow> 1 | Some n \<Rightarrow> n)"
    and size: "pageSize = (case p_limit params of None \<Rightarrow> 20 | Some n \<Rightarrow> n)"
    and safe: "safe_numbers params"
  shows "(page \<le> 0 \<and> 1 \<le> pageSize \<longrightarrow>
            searchVideos ts store params = Inl (NegativeSkip ((page - 1) * pageSize)))
       \<and> ((page - 1) * pageSize < 0 \<longrightarrow>
            searchVideos ts store params = Inl (NegativeSkip ((page - 1) * pageSize)))
       \<and> (0 \<le> (page - 1) * pageSize \<longrightarrow>
            (\<exists>r. searchVideos ts store params = Inr r
               \<and> pg_page (pagination r) = page \<and> pg_limit (pagination r) = pageSize))"
proof (intro conjI impI)
  assume neg: "(page - 1) * pageSize < 0"
  then show "searchVideos ts store params = Inl (NegativeSkip ((page - 1) * pageSize))"
    by (simp add: searchVideos_safe [OF safe] page [symmetric] size [symmetric]
        cursor_skip_limit_def)
next
  assume "page \<le> 0 \<and> 1 \<le> pageSize"
  then have "page - 1 < 0" and "0 < pageSize" by simp_all
  then have "(page - 1) * pageSize < 0" by (rule mult_neg_pos)
  then show "searchVideos ts store params = Inl (NegativeSkip ((page - 1) * pageSize))"
    by (simp add: searchVideos_safe [OF safe] page [symmetric] size [symmetric]
        cursor_skip_limit_def)
next
  assume "0 \<le> (page - 1) * pageSize"
  then show "\<exists>r. searchVideos ts store params = Inr r
               \<and> pg_page (pagination r) = page \<and> pg_limit (pagination r) = pageSize"
    by (simp add: searchVideos_safe [OF safe] page [symmetric] size [symmetric]
        cursor_skip_limit_def)
qed

theorem invalid_page_rejected_witness:
  "0 = (case p_page (page_request 0 20) of None \<Rightarrow> 1 | Some n \<Rightarrow> n)
   \<and> 20 = (case p_limit (page_request 0 20) of None \<Rightarrow> 20 | Some n \<Rightarrow> n)
   \<and> safe_numbers (page_request 0 20)
   \<and> (0::int) \<le> 0 \<and> (1::int) \<le> 20
   \<and> searchVideos title_index example_store (page_request 0 20) = Inl (NegativeSkip (- 20))"
proof -
  have h: "0 = (case p_page (page_request 0 20) of None \<Rightarrow> 1 | Some n \<Rightarrow> n)"
    "20 = (case p_limit (page_request 0 20) of None \<Rightarrow> 20 | Some n \<Rightarrow> n)"
    by (simp_all add: page_request_def no_filter_def)
  have safe: "safe_numbers (page_request 0 20)"
    by (simp add: page_request_safe safe_integer_def)
  show ?thesis
    using invalid_page_rejected [OF h safe, of title_index example_store] h safe by simp
qed

section \<open>The trending aggregator\<close>

lemma trendingScore_exact:
  "trendingScore exact_arith c v = real_of_int c + 2 * log 10 (real_of_int v + 1)"
  by (simp add: trendingScore_def exact_arith_simps)

lemma trendingScore_views_mono:
  assumes "0 \<le> v1" and "v1 \<le> v2"
  shows "trendingScore exact_arith c v1 \<le> trendingScore exact_arith c v2"
proof -
  have "0 < real_of_int v1 + 1" and "real_of_int v1 + 1 \<le> real_of_int v2 + 1"
    using assms by simp_all
  then have "log 10 (real_of_int v1 + 1) \<le> log 10 (real_of_int v2 + 1)"
    by simp
  then show ?thesis by (simp add: trendingScore_exact)
qed

lemma trendingScore_count_mono:
  "c1 < c2 \<Longrightarrow> trendingScore exact_arith c1 v < trendingScore exact_arith c2 v"
  by (simp add: trendingScore_exact)

text \<open>
  C9. The trending score, in exact arithmetic, is monotone in both inputs: for a fixed
  count, more total views (from a total that is not negative) never give a lower score;
  for fixed total views, a larger count gives a strictly larger score.
\<close>

theorem trendingScore_monotone:
  "(0 \<le> v1 \<and> v1 \<le> v2 \<longrightarrow> trendingScore exact_arith c v1 \<le> trendingScore exact_arith c v2)
   \<and> (c1 < c2 \<longrightarrow> trendingScore exact_arith c1 v < trendingScore exact_arith c2 v)"
  using trendingScore_views_mono trendingScore_count_mono by blast

lemma log10_10: "log 10 10 = 1"
  by simp

lemma log10_100: "log 10 100 = 2"
proof -
  have "log 10 (10 * 10 :: real) = log 10 10 + log 10 10"
    by (rule log_mult_pos) simp_all
  moreover have "(10 * 10 :: real) = 100" by simp
  ultimately show ?thesis by (simp only: log10_10)
qed

lemma trendingScore_examples:
  "trendingScore exact_arith 1 9 = 3" "trendingScore exact_arith 2 99 = 6"
  by (simp_all add: trendingScore_exact log10_100)

theorem trendingScore_monotone_witness:
  "(0::int) \<le> 9 \<and> (9::int) \<le> 99
   \<and> trendingScore exact_arith 2 9 \<le> trendingScore exact_arith 2 99
   \<and> (1::int) < 2 \<and> trendingScore exact_arith 1 9 < trendingScore exact_arith 2 9"
  using trendingScore_monotone [of 9 99 2 1 2 9] by simp

lemma rows_count:
  "length (filter (\<lambda>r. fst r = k) (map (\<lambda>b. (b, x)) bs)) = count_list bs k"
  by (induction bs) simp_all

lemma rows_views:
  "sum_list (map snd (filter (\<lambda>r. fst r = k) (map (\<lambda>b. (b, x)) bs))) = int (count_list bs k) * x"
  by (induction bs) (simp_all add: algebra_simps)

lemma unwind_brawlers_simps:
  "unwind_brawlers [] = []"
  "unwind_brawlers (v # vs) = map (\<lambda>b. (b, viewCount v)) (brawlers v) @ unwind_brawlers vs"
  by (simp_all add: unwind_brawlers_def)

lemma spec_count_simps:
  "spec_count k [] = 0"
  "spec_count k (v # vs) = int (count_list (brawlers v) k) + spec_count k vs"
  by (simp_all add: spec_count_def)

lemma spec_totalViews_simps:
  "spec_totalViews k [] = 0"
  "spec_totalViews k (v # vs) = int (count_list (brawlers v) k) * viewCount v + spec_totalViews k vs"
  by (simp_all add: spec_totalViews_def)

lemma unwind_count:
  "int (length (filter (\<lambda>r. fst r = k) (unwind_brawlers vs))) = spec_count k vs"
proof (induction vs)
  case Nil
  show ?case by (simp add: unwind_brawlers_simps spec_count_simps)
next
  case (Cons v vs)
  then show ?case
    by (simp only: unwind_brawlers_simps filter_append length_append rows_count
        spec_count_simps of_nat_add)
qed

lemma unwind_views:
  "sum_list (map snd (filter (\<lambda>r. fst r = k) (unwind_brawlers vs))) = spec_totalViews k vs"
proof (induction vs)
  case Nil
  show ?case by (simp add: unwind_brawlers_simps spec_totalViews_simps)
next
  case (Cons v vs)
  then show ?case
    by (simp only: unwind_brawlers_simps filter_append map_append sum_list_append rows_views
        spec_totalViews_simps)
qed

lemma unwind_keys: "set (map fst (unwind_brawlers vs)) = (\<Union>v\<in>set vs. set (brawlers v))"
  by (induction vs) (auto simp: unwind_brawlers_simps)

lemma spec_totalViews_nonneg:
  "\<forall>v\<in>set vs. 0 \<le> viewCount v \<Longrightarrow> 0 \<le> spec_totalViews k vs"
  by (induction vs) (simp_all add: spec_totalViews_simps)

lemma group_brawlers_keys: "map t_brawler (group_brawlers ar rows) = remdups (map fst rows)"
  by (simp add: group_brawlers_def Let_def comp_def)

lemma group_brawlers_entry:
  assumes "e \<in> set (group_brawlers ar rows)"
  shows "t_count e = int (length (filter (\<lambda>r. fst r = t_brawler e) rows))"
    and "t_totalViews e = sum_list (map snd (filter (\<lambda>r. fst r = t_brawler e) rows))"
    and "t_score e = trendingScore ar (t_count e) (t_totalViews e)"
  using assms by (auto simp: group_brawlers_def Let_def)

lemma score_before_total: "\<not> score_before a b \<Longrightarrow> score_before b a"
  by (simp add: score_before_def)

lemma score_before_trans: "score_before a b \<Longrightarrow> score_before b c \<Longrightarrow> score_before a c"
  by (simp add: score_before_def)

lemma sorted_score_before: "sorted_wrt score_before (sort_by score_before xs)"
  using score_before_total score_before_trans by (rule sorted_sort_by)

lemma count_before_total: "\<not> count_before a b \<Longrightarrow> count_before b a"
  by (simp add: count_before_def)

lemma count_before_trans: "count_before a b \<Longrightarrow> count_before b c \<Longrightarrow> count_before a c"
  by (simp add: count_before_def)

lemma sorted_count_before: "sorted_wrt count_before (sort_by count_before xs)"
  using count_before_total count_before_trans by (rule sorted_sort_by)

lemma group_queries_keys: "map qc_query (group_queries qs) = remdups qs"
  by (simp add: group_queries_def comp_def)

lemma group_queries_entry:
  "e \<in> set (group_queries qs) \<Longrightarrow> qc_count e = int (length (filter (\<lambda>x. x = qc_query e) qs))"
  by (auto simp: group_queries_def)

text \<open>
  C8. Let the limit be a positive safe integer, the page a safe integer \<open>\<ge> 1\<close> with a safe
  offset, the view counts not negative and the views of all brawler occurrences in the
  store together a safe integer. Then \<open>getTrendingBrawlers\<close> returns the first \<open>limit\<close>
  entries of a list with exactly one entry for each brawler that occurs in a video of the
  window; the entry carries the number of occurrences as count, the sum of the views over
  these occurrences as total views, and as score the store's sum of the count and of 2
  times the store's \<open>log10 (totalViews + 1)\<close>; the list is in descending order of score.
  \<open>getPopularSearchQueries\<close> returns a slice of at most \<open>limit\<close> entries, from the offset
  \<open>(page - 1) * limit\<close>, of a list with one entry for each query of the window, which
  carries the number of its rows as count and nothing else, in descending order of count.
\<close>

theorem trending_scores:
  assumes pos: "0 < n" "safe_integer n"
    and page: "1 \<le> page" "safe_integer page" "safe_integer ((page - 1) * n)"
    and views: "\<forall>v\<in>set store. 0 \<le> viewCount v"
    and total: "safe_integer (\<Sum>v\<leftarrow>store. int (length (brawlers v)) * viewCount v)"
    and window:
      "window = filter (\<lambda>v. windowStart (case days of None \<Rightarrow> 30 | Some d \<Rightarrow> d) \<le> publishedAt v) store"
    and recent:
      "recent = filter (\<lambda>r. windowStart (case days of None \<Rightarrow> 30 | Some d \<Rightarrow> d) \<le> sh_timestamp r)
                  history"
  shows "(\<exists>ranked.
            getTrendingBrawlers ar windowStart store (Some n) days = Inr (take (nat n) ranked)
          \<and> sorted_wrt (\<lambda>a b. t_score a \<ge> t_score b) ranked
          \<and> distinct (map t_brawler ranked)
          \<and> set (map t_brawler ranked) = (\<Union>v\<in>set window. set (brawlers v))
          \<and> (\<forall>e\<in>set ranked.
                t_count e = spec_count (t_brawler e) window
              \<and> t_totalViews e = spec_totalViews (t_brawler e) window
              \<and> t_score e
                  = d_add ar [real_of_int (t_count e),
                              d_multiply ar [d_log10 ar (real_of_int (t_totalViews e + 1)), 2]]))
       \<and> (\<exists>counted pg.
            getPopularSearchQueries windowStart history (Some n) days (Some page)
              = Inr \<lparr> queries = take (nat n) (drop (nat ((page - 1) * n)) counted),
                      queries_pagination = pg \<rparr>
          \<and> sorted_wrt (\<lambda>a b. qc_count a \<ge> qc_count b) counted
          \<and> distinct (map qc_query counted)
          \<and> set (map qc_query counted) = sh_query ` set recent
          \<and> (\<forall>e\<in>set counted.
                qc_count e = int (length (filter (\<lambda>r. sh_query r = qc_query e) recent))))"
proof
  let ?groups = "group_brawlers ar (unwind_brawlers window)"
  let ?ranked = "sort_by score_before ?groups"
  have limit: "parseInt n = n" using pos(2) by (rule parseInt_safe)
  have entry: "t_count e = spec_count (t_brawler e) window
      \<and> t_totalViews e = spec_totalViews (t_brawler e) window
      \<and> t_score e
          = d_add ar [real_of_int (t_count e),
                      d_multiply ar [d_log10 ar (real_of_int (t_totalViews e + 1)), 2]]"
    if "e \<in> set ?groups" for e
    using group_brawlers_entry [OF that]
    by (simp add: unwind_count unwind_views trendingScore_def)
  have "\<forall>v\<in>set window. 0 \<le> viewCount v"
    using views by (simp add: window)
  then have nonneg: "0 \<le> t_totalViews e" if "e \<in> set ?groups" for e
    using entry [OF that] by (simp add: spec_totalViews_nonneg)
  have "find (\<lambda>g. t_totalViews g + 1 \<le> 0) ?groups = None"
    using nonneg by (fastforce simp: find_None_iff)
  then have run: "getTrendingBrawlers ar windowStart store (Some n) days
      = Inr (take (nat n) ?ranked)"
    using pos(1) by (simp add: getTrendingBrawlers_def limit_stage_def Let_def window limit)
  have "sorted_wrt score_before ?ranked" by (rule sorted_score_before)
  then have ordered: "sorted_wrt (\<lambda>a b. t_score a \<ge> t_score b) ?ranked"
    by (rule sorted_wrt_mono_rel [rotated]) (simp add: score_before_def)
  have "distinct (map t_brawler ?groups)"
    by (simp only: group_brawlers_keys distinct_remdups)
  then have dist: "distinct (map t_brawler ?ranked)" by (rule distinct_map_sort_by)
  have keys: "set (map t_brawler ?ranked) = (\<Union>v\<in>set window. set (brawlers v))"
  proof -
    have "set (map t_brawler ?ranked) = t_brawler ` set ?groups"
      by (simp only: set_map set_sort_by)
    also have "\<dots> = set (map t_brawler ?groups)" by simp
    also have "\<dots> = set (map fst (unwind_brawlers window))"
      by (simp only: group_brawlers_keys set_remdups)
    also have "\<dots> = (\<Union>v\<in>set window. set (brawlers v))" by (rule unwind_keys)
    finally show ?thesis .
  qed
  have entries: "\<forall>e\<in>set ?ranked.
                t_count e = spec_count (t_brawler e) window
              \<and> t_totalViews e = spec_totalViews (t_brawler e) window
              \<and> t_score e
                  = d_add ar [real_of_int (t_count e),
                              d_multiply ar [d_log10 ar (real_of_int (t_totalViews e + 1)), 2]]"
    using entry by (simp only: set_sort_by) blast
  show "\<exists>ranked.
            getTrendingBrawlers ar windowStart store (Some n) days = Inr (take (nat n) ranked)
          \<and> sorted_wrt (\<lambda>a b. t_score a \<ge> t_score b) ranked
          \<and> distinct (map t_brawler ranked)
          \<and> set (map t_brawler ranked) = (\<Union>v\<in>set window. set (brawlers v))
          \<and> (\<forall>e\<in>set ranked.
                t_count e = spec_count (t_brawler e) window
              \<and> t_totalViews e = spec_totalViews (t_brawler e) window
              \<and> t_score e
                  = d_add ar [real_of_int (t_count e),
                              d_multiply ar [d_log10 ar (real_of_int (t_totalViews e + 1)), 2]])"
    by (rule exI [of _ ?ranked]) (intro conjI run ordered dist keys entries)
next
  let ?groups = "group_queries (map sh_query recent)"
  let ?counted = "sort_by count_before ?groups"
  have limit: "parseInt n = n" using pos(2) by (rule parseInt_safe)
  have pg: "parseInt page = page" using page(2) by (rule parseInt_safe)
  have skip: "0 \<le> (page - 1) * n" using pos(1) page(1) by simp
  have run: "\<exists>pg. getPopularSearchQueries windowStart history (Some n) days (Some page)
              = Inr \<lparr> queries = take (nat n) (drop (nat ((page - 1) * n)) ?counted),
                      queries_pagination = pg \<rparr>"
    using pos(1) skip
    by (simp add: getPopularSearchQueries_def skip_stage_def limit_stage_def Let_def recent
        limit pg)
  have "sorted_wrt count_before ?counted" by (rule sorted_count_before)
  then have ordered: "sorted_wrt (\<lambda>a b. qc_count a \<ge> qc_count b) ?counted"
    by (rule sorted_wrt_mono_rel [rotated]) (simp add: count_before_def)
  have "distinct (map qc_query ?groups)"
    by (simp only: group_queries_keys distinct_remdups)
  then have dist: "distinct (map qc_query ?counted)" by (rule distinct_map_sort_by)
  have keys: "set (map qc_query ?counted) = sh_query ` set recent"
  proof -
    have "set (map qc_query ?counted) = qc_query ` set ?groups"
      by (simp only: set_map set_sort_by)
    also have "\<dots> = set (map qc_query ?groups)" by simp
    also have "\<dots> = sh_query ` set recent"
      by (simp only: group_queries_keys set_remdups set_map)
    finally show ?thesis .
  qed
  have entries: "\<forall>e\<in>set ?counted.
                qc_count e = int (length (filter (\<lambda>r. sh_query r = qc_query e) recent))"
    by (simp only: set_sort_by) (simp add: group_queries_entry comp_def)
  from run obtain pg0 where
    run': "getPopularSearchQueries windowStart history (Some n) days (Some page)
              = Inr \<lparr> queries = take (nat n) (drop (nat ((page - 1) * n)) ?counted),
                      queries_pagination = pg0 \<rparr>"
    by blast
  show "\<exists>counted pg.
            getPopularSearchQueries windowStart history (Some n) days (Some page)
              = Inr \<lparr> queries = take (nat n) (drop (nat ((page - 1) * n)) counted),
                      queries_pagination = pg \<rparr>
          \<and> sorted_wrt (\<lambda>a b. qc_count a \<ge> qc_count b) counted
          \<and> distinct (map qc_query counted)
          \<and> set (map qc_query counted) = sh_query ` set recent
          \<and> (\<forall>e\<in>set counted.
                qc_count e = int (length (filter (\<lambda>r. sh_query r = qc_query e) recent)))"
    by (rule exI [of _ ?counted], rule exI [of _ pg0])
       (intro conjI run' ordered dist keys entries)
qed

lemma trend_run:
  "map_sum id (map entry_summary)
     (getTrendingBrawlers exact_arith mid_january trend_store (Some 5) None)
     = Inr [(''Mortis'', 2, 99, 6), (''Colt'', 1, 9, 3)]"
  by (simp add: getTrendingBrawlers_def mid_january_def trend_store_def example_defs
      unwind_brawlers_def group_brawlers_def trendingScore_exact log10_100 score_before_def
      limit_stage_def entry_summary_def Let_def parseInt_def)

lemma history_run:
  "map_sum id (\<lambda>r. map query_summary (queries r))
     (getPopularSearchQueries mid_january trend_history (Some 5) None (Some 1))
     = Inr [(''mortis tips'', 2), (''colt'', 1)]"
  by (simp add: getPopularSearchQueries_def mid_january_def trend_history_def
      group_queries_def count_before_def skip_stage_def limit_stage_def query_summary_def
      Let_def parseInt_def)

theorem trending_scores_witness:
  "(0::int) < 5 \<and> safe_integer 5 \<and> (1::int) \<le> 1 \<and> safe_integer 1
   \<and> safe_integer ((1 - 1) * 5)
   \<and> list_all (\<lambda>v. 0 \<le> viewCount v) trend_store
   \<and> safe_integer (\<Sum>v\<leftarrow>trend_store. int (length (brawlers v)) * viewCount v)
   \<and> map_sum id (map entry_summary)
        (getTrendingBrawlers exact_arith mid_january trend_store (Some 5) None)
       = Inr [(''Mortis'', 2, 99, 2 + 2 * 2), (''Colt'', 1, 9, 1 + 2 * 1)]
   \<and> map_sum id (\<lambda>r. map query_summary (queries r))
        (getPopularSearchQueries mid_january trend_history (Some 5) None (Some 1))
       = Inr [(''mortis tips'', 2), (''colt'', 1)]"
proof -
  have pos: "(0::int) < 5" "safe_integer 5"
    and page: "(1::int) \<le> 1" "safe_integer 1" "safe_integer ((1 - 1) * 5)"
    by (simp_all add: safe_integer_def)
  have views: "\<forall>v\<in>set trend_store. 0 \<le> viewCount v"
    by (simp add: trend_store_def example_defs)
  have total: "safe_integer (\<Sum>v\<leftarrow>trend_store. int (length (brawlers v)) * viewCount v)"
    by (simp add: trend_store_def example_defs safe_integer_def)
  show ?thesis
    using trending_scores [OF pos page views total refl refl,
        where windowStart = mid_january and days = None and history = trend_history
          and ar = exact_arith]
      trend_run history_run views pos page total
    by (simp add: list_all_iff)
qed

end
